theory Spec2Isabelle
  imports Main "HOL-Library.Word"
begin

section \<open>Bytes, buffers and the random source\<close>

text \<open>
  A \<^verbatim>\<open>uint8_t\<close> is an 8-bit word. A pointer argument of the C code is modelled by the
  bytes of the caller's memory from that address on: an input buffer is the list that is
  read, an output buffer is passed in and returned updated. Writing past the end of the
  object a pointer refers to is undefined in C; here the list is the memory that follows
  the pointer, so such a write shows up as a change beyond the declared length.
\<close>

type_synonym byte = "8 word"
type_synonym bytes = "byte list"

definition load :: "bytes \<Rightarrow> nat \<Rightarrow> nat \<Rightarrow> bytes" where
  \<comment> \<open>the \<open>n\<close> bytes at \<open>mem + off\<close>\<close>
  "load mem off n = take n (drop off mem)"

definition store :: "bytes \<Rightarrow> nat \<Rightarrow> bytes \<Rightarrow> nat \<Rightarrow> bytes" where
  \<comment> \<open>\<open>n\<close> bytes of \<open>src\<close> written at \<open>mem + off\<close>\<close>
  "store mem off src n = take off mem @ take n src @ drop (off + n) mem"

definition memcpy :: "bytes \<Rightarrow> nat \<Rightarrow> bytes \<Rightarrow> nat \<Rightarrow> nat \<Rightarrow> bytes" where
  \<comment> \<open>\<^verbatim>\<open>memcpy(dst + doff, src + soff, n)\<close>\<close>
  "memcpy dst doff src soff n = store dst doff (load src soff n) n"

text \<open>
  A local array declared without initialiser holds indeterminate bytes. They are an
  explicit argument: a function from the index to the byte found there.
\<close>

type_synonym garbage = "nat \<Rightarrow> byte"

definition alloca :: "garbage \<Rightarrow> nat \<Rightarrow> bytes" where
  "alloca g n = map g [0..<n]"

text \<open>
  The random source is the sequence of bytes it is going to deliver;
  \<^verbatim>\<open>randombytes(out, n)\<close> takes the next \<open>n\<close> of them.
\<close>

type_synonym rng = "nat \<Rightarrow> byte"

definition randombytes :: "rng \<Rightarrow> nat \<Rightarrow> bytes \<times> rng" where
  "randombytes r n = (map r [0..<n], \<lambda>i. r (i + n))"

text \<open>
  The loop \<^verbatim>\<open>for (i = 0; i < 32; i++) dst[i] = src[i];\<close> of \<^verbatim>\<open>kem.c\<close>.
\<close>

definition copy_loop :: "nat \<Rightarrow> bytes \<Rightarrow> bytes \<Rightarrow> bytes" where
  "copy_loop n dst src = fold (\<lambda>i d. d[i := src ! i]) [0..<n] dst"

section \<open>Parameters and primitives\<close>

text \<open>
  \<^verbatim>\<open>params.h\<close> is not among the sources. The two sizes the code of \<^verbatim>\<open>kem.c\<close> also writes
  as the literal 32 are fixed; the sizes of the encryption primitive's keys and
  ciphertext are fields of the record of primitives below.
\<close>

definition KYBER_SYMBYTES :: nat where
  \<comment> \<open>Modelled from the spec: \<^verbatim>\<open>params.h\<close> is missing; the hashes and seeds have 32 bytes.\<close>
  "KYBER_SYMBYTES = 32"

definition KYBER_SSBYTES :: nat where
  \<comment> \<open>Modelled from the spec: \<^verbatim>\<open>params.h\<close> is missing; \<open>SS_LEN = 32\<close>.\<close>
  "KYBER_SSBYTES = 32"

definition KYBER_INDCPA_MSGBYTES :: nat where
  \<comment> \<open>Modelled from the spec: \<^verbatim>\<open>params.h\<close> is missing; the message has 32 bytes.\<close>
  "KYBER_INDCPA_MSGBYTES = 32"

text \<open>
  The encryption primitive (\<^verbatim>\<open>indcpa.h\<close>), the hashes and the key derivation
  (\<^verbatim>\<open>symmetric.h\<close>) are declared outside the sources: they are parameters. Each takes
  the bytes it reads and returns the bytes it writes. \<open>indcpa_keypair\<close> draws from the
  random source; \<open>indcpa_keypair_based_on_input\<close> is given the bytes at \<^verbatim>\<open>key_input\<close>.
\<close>

record prims =
  KYBER_INDCPA_PUBLICKEYBYTES :: nat
  KYBER_INDCPA_SECRETKEYBYTES :: nat
  KYBER_INDCPA_BYTES :: nat
  indcpa_keypair :: "rng \<Rightarrow> bytes \<times> bytes \<times> rng"
  indcpa_keypair_based_on_input :: "bytes \<Rightarrow> bytes \<times> bytes"
  indcpa_enc :: "bytes \<Rightarrow> bytes \<Rightarrow> bytes \<Rightarrow> bytes"
  indcpa_dec :: "bytes \<Rightarrow> bytes \<Rightarrow> bytes"
  hash_h :: "bytes \<Rightarrow> bytes"
  hash_g :: "bytes \<Rightarrow> bytes"
  kdf :: "bytes \<Rightarrow> bytes"

definition KYBER_PUBLICKEYBYTES :: "prims \<Rightarrow> nat" where
  \<comment> \<open>Modelled from the spec: \<^verbatim>\<open>params.h\<close> is missing; the public key is the primitive's.\<close>
  "KYBER_PUBLICKEYBYTES P = KYBER_INDCPA_PUBLICKEYBYTES P"

definition KYBER_SECRETKEYBYTES :: "prims \<Rightarrow> nat" where
  \<comment> \<open>Modelled from the spec: \<^verbatim>\<open>params.h\<close> is missing; the secret key is the primitive's
      secret key, the public key, its hash and the rejection seed.\<close>
  "KYBER_SECRETKEYBYTES P =
     KYBER_INDCPA_SECRETKEYBYTES P + KYBER_INDCPA_PUBLICKEYBYTES P + 2 * KYBER_SYMBYTES"

definition KYBER_CIPHERTEXTBYTES :: "prims \<Rightarrow> nat" where
  \<comment> \<open>Modelled from the spec: \<^verbatim>\<open>params.h\<close> is missing; the ciphertext is the primitive's.\<close>
  "KYBER_CIPHERTEXTBYTES P = KYBER_INDCPA_BYTES P"

definition verify :: "bytes \<Rightarrow> bytes \<Rightarrow> nat \<Rightarrow> int" where
  \<comment> \<open>Modelled from the spec: \<^verbatim>\<open>verify.c\<close> is missing; \<open>ct_compare(a, b, len)\<close> is 0 when the
      first \<open>len\<close> bytes agree and 1 otherwise.\<close>
  "verify a b len = (if take len a = take len b then 0 else 1)"

definition cmov :: "bytes \<Rightarrow> bytes \<Rightarrow> nat \<Rightarrow> int \<Rightarrow> bytes" where
  \<comment> \<open>Modelled from the spec: \<^verbatim>\<open>verify.c\<close> is missing; \<open>ct_select(dst, src, len, flag)\<close>
      overwrites \<open>len\<close> bytes of \<open>dst\<close> when the flag is set.\<close>
  "cmov r x len b = (if b = 0 then r else store r 0 x len)"

section \<open>The construction of \<^verbatim>\<open>kem.c\<close>\<close>

definition crypto_kem_keypair ::
  "prims \<Rightarrow> bytes \<Rightarrow> bytes \<Rightarrow> rng \<Rightarrow> int \<times> bytes \<times> bytes \<times> rng" where
  "crypto_kem_keypair P pk sk r =
     (let (pk0, sk0, r1) = indcpa_keypair P r;
          pk1 = store pk 0 pk0 (KYBER_INDCPA_PUBLICKEYBYTES P);
          sk1 = store sk 0 sk0 (KYBER_INDCPA_SECRETKEYBYTES P);
          sk2 = memcpy sk1 (KYBER_INDCPA_SECRETKEYBYTES P) pk1 0 (KYBER_INDCPA_PUBLICKEYBYTES P);
          sk3 = store sk2 (KYBER_SECRETKEYBYTES P - 2 * KYBER_SYMBYTES)
                  (hash_h P (load pk1 0 (KYBER_PUBLICKEYBYTES P))) KYBER_SYMBYTES;
          (z, r2) = randombytes r1 KYBER_SYMBYTES;
          sk4 = store sk3 (KYBER_SECRETKEYBYTES P - KYBER_SYMBYTES) z KYBER_SYMBYTES
      in (0, pk1, sk4, r2))"

definition crypto_kem_keypair_based_on_input ::
  "prims \<Rightarrow> bytes \<Rightarrow> bytes \<Rightarrow> bytes \<Rightarrow> garbage \<Rightarrow> int \<times> bytes \<times> bytes" where
  "crypto_kem_keypair_based_on_input P key_input pk sk g_hash =
     (let (pk0, sk0) = indcpa_keypair_based_on_input P key_input;
          pk1 = store pk 0 pk0 (KYBER_INDCPA_PUBLICKEYBYTES P);
          sk1 = store sk 0 sk0 (KYBER_INDCPA_SECRETKEYBYTES P);
          sk2 = memcpy sk1 (KYBER_INDCPA_SECRETKEYBYTES P) pk1 0 (KYBER_INDCPA_PUBLICKEYBYTES P);
          sk3 = store sk2 (KYBER_SECRETKEYBYTES P - 2 * KYBER_SYMBYTES)
                  (hash_h P (load pk1 0 (KYBER_PUBLICKEYBYTES P))) KYBER_SYMBYTES;
          hash_of_y_x = copy_loop 32 (alloca g_hash (2 * KYBER_SYMBYTES)) key_input;
          sk4 = memcpy sk3 (KYBER_SECRETKEYBYTES P - KYBER_SYMBYTES) hash_of_y_x 0 KYBER_SYMBYTES
      in (0, pk1, sk4))"

definition crypto_kem_enc ::
  "prims \<Rightarrow> bytes \<Rightarrow> bytes \<Rightarrow> bytes \<Rightarrow> garbage \<Rightarrow> garbage \<Rightarrow> rng \<Rightarrow> int \<times> bytes \<times> bytes \<times> rng" where
  "crypto_kem_enc P ct ss pk g_buf g_kr r =
     (let buf0 = alloca g_buf (2 * KYBER_SYMBYTES);
          kr0 = alloca g_kr (2 * KYBER_SYMBYTES);
          (rnd, r1) = randombytes r KYBER_SYMBYTES;
          buf1 = store buf0 0 rnd KYBER_SYMBYTES;
          buf2 = store buf1 0 (hash_h P (load buf1 0 KYBER_SYMBYTES)) KYBER_SYMBYTES;
          buf3 = store buf2 KYBER_SYMBYTES
                   (hash_h P (load pk 0 (KYBER_PUBLICKEYBYTES P))) KYBER_SYMBYTES;
          kr1 = store kr0 0 (hash_g P (load buf3 0 (2 * KYBER_SYMBYTES))) (2 * KYBER_SYMBYTES);
          ct1 = store ct 0
                  (indcpa_enc P (load buf3 0 KYBER_INDCPA_MSGBYTES)
                     (load pk 0 (KYBER_INDCPA_PUBLICKEYBYTES P))
                     (load kr1 KYBER_SYMBYTES KYBER_SYMBYTES))
                  (KYBER_INDCPA_BYTES P);
          kr2 = store kr1 KYBER_SYMBYTES
                  (hash_h P (load ct1 0 (KYBER_CIPHERTEXTBYTES P))) KYBER_SYMBYTES;
          ss1 = store ss 0 (kdf P (load kr2 0 (2 * KYBER_SYMBYTES))) KYBER_SSBYTES
      in (0, ct1, ss1, r1))"

definition crypto_kem_enc_custom_secret_CPA ::
  "prims \<Rightarrow> bytes \<Rightarrow> bytes \<Rightarrow> bytes \<Rightarrow> bytes \<Rightarrow> garbage \<Rightarrow> garbage \<Rightarrow> int \<times> bytes \<times> bytes" where
  "crypto_kem_enc_custom_secret_CPA P input_message ct ss pk g_buf g_kr =
     (let buf0 = alloca g_buf (2 * KYBER_SYMBYTES);
          kr0 = alloca g_kr (2 * KYBER_SYMBYTES);
          buf1 = copy_loop 32 buf0 input_message;
          ct1 = store ct 0
                  (indcpa_enc P (load buf1 0 KYBER_INDCPA_MSGBYTES)
                     (load pk 0 (KYBER_INDCPA_PUBLICKEYBYTES P))
                     (load kr0 KYBER_SYMBYTES KYBER_SYMBYTES))
                  (KYBER_INDCPA_BYTES P);
          ss1 = memcpy ss 0 buf1 0 (2 * KYBER_SYMBYTES)
      in (0, ct1, ss1))"

definition crypto_kem_enc_custom_secret_CCA ::
  "prims \<Rightarrow> bytes \<Rightarrow> bytes \<Rightarrow> bytes \<Rightarrow> bytes \<Rightarrow> garbage \<Rightarrow> garbage \<Rightarrow> int \<times> bytes \<times> bytes" where
  "crypto_kem_enc_custom_secret_CCA P input_message ct ss pk g_buf g_kr =
     (let buf0 = alloca g_buf (2 * KYBER_SYMBYTES);
          kr0 = alloca g_kr (2 * KYBER_SYMBYTES);
          buf1 = copy_loop 32 buf0 input_message;
          buf2 = store buf1 0 (hash_h P (load buf1 0 KYBER_SYMBYTES)) KYBER_SYMBYTES;
          buf3 = store buf2 KYBER_SYMBYTES
                   (hash_h P (load pk 0 (KYBER_PUBLICKEYBYTES P))) KYBER_SYMBYTES;
          kr1 = store kr0 0 (hash_g P (load buf3 0 (2 * KYBER_SYMBYTES))) (2 * KYBER_SYMBYTES);
          ct1 = store ct 0
                  (indcpa_enc P (load buf3 0 KYBER_INDCPA_MSGBYTES)
                     (load pk 0 (KYBER_INDCPA_PUBLICKEYBYTES P))
                     (load kr1 KYBER_SYMBYTES KYBER_SYMBYTES))
                  (KYBER_INDCPA_BYTES P);
          kr2 = store kr1 KYBER_SYMBYTES
                  (hash_h P (load ct1 0 (KYBER_CIPHERTEXTBYTES P))) KYBER_SYMBYTES;
          ss1 = store ss 0 (kdf P (load kr2 0 (2 * KYBER_SYMBYTES))) KYBER_SSBYTES
      in (0, ct1, ss1))"

text \<open>
  Decapsulation. \<open>dec_locals\<close> is the body of \<^verbatim>\<open>crypto_kem_dec\<close> up to the call of
  \<^verbatim>\<open>cmov\<close>: it returns the locals \<^verbatim>\<open>fail\<close> and \<^verbatim>\<open>kr\<close> as they are before the key derivation.
\<close>

definition dec_locals ::
  "prims \<Rightarrow> bytes \<Rightarrow> bytes \<Rightarrow> garbage \<Rightarrow> garbage \<Rightarrow> garbage \<Rightarrow> int \<times> bytes" where
  "dec_locals P ct sk g_buf g_kr g_cmp =
     (let buf0 = alloca g_buf (2 * KYBER_SYMBYTES);
          kr0 = alloca g_kr (2 * KYBER_SYMBYTES);
          cmp0 = alloca g_cmp (KYBER_CIPHERTEXTBYTES P);
          pk = drop (KYBER_INDCPA_SECRETKEYBYTES P) sk;
          buf1 = store buf0 0
                   (indcpa_dec P (load ct 0 (KYBER_INDCPA_BYTES P))
                      (load sk 0 (KYBER_INDCPA_SECRETKEYBYTES P)))
                   KYBER_INDCPA_MSGBYTES;
          buf2 = memcpy buf1 KYBER_SYMBYTES
                   sk (KYBER_SECRETKEYBYTES P - 2 * KYBER_SYMBYTES) KYBER_SYMBYTES;
          kr1 = store kr0 0 (hash_g P (load buf2 0 (2 * KYBER_SYMBYTES))) (2 * KYBER_SYMBYTES);
          cmp1 = store cmp0 0
                   (indcpa_enc P (load buf2 0 KYBER_INDCPA_MSGBYTES)
                      (load pk 0 (KYBER_INDCPA_PUBLICKEYBYTES P))
                      (load kr1 KYBER_SYMBYTES KYBER_SYMBYTES))
                   (KYBER_INDCPA_BYTES P);
          fail = verify ct cmp1 (KYBER_CIPHERTEXTBYTES P);
          kr2 = store kr1 KYBER_SYMBYTES
                  (hash_h P (load ct 0 (KYBER_CIPHERTEXTBYTES P))) KYBER_SYMBYTES
      in (fail, kr2))"

definition crypto_kem_dec ::
  "prims \<Rightarrow> bytes \<Rightarrow> bytes \<Rightarrow> bytes \<Rightarrow> garbage \<Rightarrow> garbage \<Rightarrow> garbage \<Rightarrow> int \<times> bytes" where
  "crypto_kem_dec P ss ct sk g_buf g_kr g_cmp =
     (let (fail, kr2) = dec_locals P ct sk g_buf g_kr g_cmp;
          kr3 = cmov kr2 (drop (KYBER_SECRETKEYBYTES P - KYBER_SYMBYTES) sk) KYBER_SYMBYTES fail;
          ss1 = store ss 0 (kdf P (load kr3 0 (2 * KYBER_SYMBYTES))) KYBER_SSBYTES
      in (0, ss1))"

definition crypto_kem_dec_custom_secret_CPA ::
  "prims \<Rightarrow> bytes \<Rightarrow> bytes \<Rightarrow> bytes \<Rightarrow> garbage \<Rightarrow> int \<times> bytes" where
  "crypto_kem_dec_custom_secret_CPA P ss ct sk g_buf =
     (let buf0 = alloca g_buf (2 * KYBER_SYMBYTES);
          buf1 = store buf0 0
                   (indcpa_dec P (load ct 0 (KYBER_INDCPA_BYTES P))
                      (load sk 0 (KYBER_INDCPA_SECRETKEYBYTES P)))
                   KYBER_INDCPA_MSGBYTES;
          ss1 = memcpy ss 0 buf1 0 (2 * KYBER_SYMBYTES)
      in (0, ss1))"

definition crypto_kem_dec_custom_secret_CCA ::
  "prims \<Rightarrow> bytes \<Rightarrow> bytes \<Rightarrow> bytes \<Rightarrow> garbage \<Rightarrow> garbage \<Rightarrow> garbage \<Rightarrow> int \<times> bytes" where
  "crypto_kem_dec_custom_secret_CCA P ss ct sk g_buf g_kr g_cmp =
     (let buf0 = alloca g_buf (2 * KYBER_SYMBYTES);
          kr0 = alloca g_kr (2 * KYBER_SYMBYTES);
          cmp0 = alloca g_cmp (KYBER_CIPHERTEXTBYTES P);
          pk = drop (KYBER_INDCPA_SECRETKEYBYTES P) sk;
          buf1 = store buf0 0
                   (indcpa_dec P (load ct 0 (KYBER_INDCPA_BYTES P))
                      (load sk 0 (KYBER_INDCPA_SECRETKEYBYTES P)))
                   KYBER_INDCPA_MSGBYTES;
          buf2 = memcpy buf1 KYBER_SYMBYTES
                   sk (KYBER_SECRETKEYBYTES P - 2 * KYBER_SYMBYTES) KYBER_SYMBYTES;
          kr1 = store kr0 0 (hash_g P (load buf2 0 (2 * KYBER_SYMBYTES))) (2 * KYBER_SYMBYTES);
          cmp1 = store cmp0 0
                   (indcpa_enc P (load buf2 0 KYBER_INDCPA_MSGBYTES)
                      (load pk 0 (KYBER_INDCPA_PUBLICKEYBYTES P))
                      (load kr1 KYBER_SYMBYTES KYBER_SYMBYTES))
                   (KYBER_INDCPA_BYTES P);
          fail = verify ct cmp1 (KYBER_CIPHERTEXTBYTES P);
          kr2 = store kr1 KYBER_SYMBYTES
                  (hash_h P (load ct 0 (KYBER_CIPHERTEXTBYTES P))) KYBER_SYMBYTES;
          kr3 = cmov kr2 (drop (KYBER_SECRETKEYBYTES P - KYBER_SYMBYTES) sk) KYBER_SYMBYTES fail;
          ss1 = store ss 0 (kdf P (load kr3 0 (2 * KYBER_SYMBYTES))) KYBER_SSBYTES
      in (0, ss1))"

section \<open>The dispatch layer of \<^verbatim>\<open>kem_kyber_768.c\<close>\<close>

text \<open>
  The preprocessor symbols that select the branches are a record of booleans, the run-time
  probe \<^verbatim>\<open>OQS_CPU_has_extension\<close> is a predicate on the extensions. The reference and
  aarch64 implementations are declared \<^verbatim>\<open>extern\<close> and are parameters; the
  \<^verbatim>\<open>pqcrystals_kyber768_avx2_*\<close> functions are those of \<^verbatim>\<open>kem.c\<close> above.
  \<^verbatim>\<open>OQS_STATUS\<close> is the integer returned, \<^verbatim>\<open>OQS_SUCCESS\<close> being 0.
\<close>

datatype cpu_ext =
  OQS_CPU_EXT_AVX2 | OQS_CPU_EXT_BMI2 | OQS_CPU_EXT_POPCNT | OQS_CPU_EXT_ARM_NEON

record build =
  OQS_ENABLE_KEM_kyber_768_avx2 :: bool
  OQS_ENABLE_KEM_kyber_768_aarch64 :: bool
  OQS_DIST_BUILD :: bool

record externs =
  pqcrystals_kyber768_ref_keypair :: "bytes \<Rightarrow> bytes \<Rightarrow> rng \<Rightarrow> int \<times> bytes \<times> bytes \<times> rng"
  pqcrystals_kyber768_ref_enc :: "bytes \<Rightarrow> bytes \<Rightarrow> bytes \<Rightarrow> rng \<Rightarrow> int \<times> bytes \<times> bytes \<times> rng"
  pqcrystals_kyber768_ref_dec :: "bytes \<Rightarrow> bytes \<Rightarrow> bytes \<Rightarrow> int \<times> bytes"
  PQCLEAN_KYBER768_AARCH64_crypto_kem_enc ::
    "bytes \<Rightarrow> bytes \<Rightarrow> bytes \<Rightarrow> rng \<Rightarrow> int \<times> bytes \<times> bytes \<times> rng"
  PQCLEAN_KYBER768_AARCH64_crypto_kem_dec :: "bytes \<Rightarrow> bytes \<Rightarrow> bytes \<Rightarrow> int \<times> bytes"

definition OQS_SUCCESS :: int where
  \<comment> \<open>the functions of \<^verbatim>\<open>kem.c\<close> return 0 for success; the dispatch layer casts it\<close>
  "OQS_SUCCESS = 0"

definition avx2_cpu :: "(cpu_ext \<Rightarrow> bool) \<Rightarrow> bool" where
  \<comment> \<open>the condition of the \<^verbatim>\<open>if\<close> in the AVX2 branches\<close>
  "avx2_cpu OQS_CPU_has_extension \<longleftrightarrow>
     OQS_CPU_has_extension OQS_CPU_EXT_AVX2 \<and> OQS_CPU_has_extension OQS_CPU_EXT_BMI2 \<and>
     OQS_CPU_has_extension OQS_CPU_EXT_POPCNT"

definition OQS_KEM_kyber_768_keypair_based_on_input ::
  "build \<Rightarrow> (cpu_ext \<Rightarrow> bool) \<Rightarrow> externs \<Rightarrow> prims \<Rightarrow> bytes \<Rightarrow> bytes \<Rightarrow> bytes \<Rightarrow> garbage \<Rightarrow> rng
     \<Rightarrow> (int \<times> bytes \<times> bytes \<times> rng) option" where
  \<comment> \<open>\<open>None\<close>: control reaches the closing brace without a \<^verbatim>\<open>return\<close>\<close>
  "OQS_KEM_kyber_768_keypair_based_on_input B cpu X P key_input public_key secret_key g_hash r =
     (if OQS_ENABLE_KEM_kyber_768_avx2 B then
        (if OQS_DIST_BUILD B \<and> \<not> avx2_cpu cpu then
           Some (pqcrystals_kyber768_ref_keypair X public_key secret_key r)
         else
           (let (st, pk, sk) =
                  crypto_kem_keypair_based_on_input P key_input public_key secret_key g_hash
            in Some (st, pk, sk, r)))
      else None)"

definition OQS_KEM_kyber_768_encaps ::
  "build \<Rightarrow> (cpu_ext \<Rightarrow> bool) \<Rightarrow> externs \<Rightarrow> prims \<Rightarrow> bytes \<Rightarrow> bytes \<Rightarrow> bytes
     \<Rightarrow> garbage \<Rightarrow> garbage \<Rightarrow> rng \<Rightarrow> int \<times> bytes \<times> bytes \<times> rng" where
  "OQS_KEM_kyber_768_encaps B cpu X P ciphertext shared_secret public_key g_buf g_kr r =
     (if OQS_ENABLE_KEM_kyber_768_avx2 B then
        (if OQS_DIST_BUILD B \<and> \<not> avx2_cpu cpu then
           pqcrystals_kyber768_ref_enc X ciphertext shared_secret public_key r
         else crypto_kem_enc P ciphertext shared_secret public_key g_buf g_kr r)
      else if OQS_ENABLE_KEM_kyber_768_aarch64 B then
        (if OQS_DIST_BUILD B \<and> \<not> cpu OQS_CPU_EXT_ARM_NEON then
           pqcrystals_kyber768_ref_enc X ciphertext shared_secret public_key r
         else PQCLEAN_KYBER768_AARCH64_crypto_kem_enc X ciphertext shared_secret public_key r)
      else pqcrystals_kyber768_ref_enc X ciphertext shared_secret public_key r)"

definition OQS_KEM_kyber_768_encaps_custom_secret_CPA ::
  "build \<Rightarrow> (cpu_ext \<Rightarrow> bool) \<Rightarrow> externs \<Rightarrow> prims \<Rightarrow> bytes \<Rightarrow> bytes \<Rightarrow> bytes \<Rightarrow> bytes
     \<Rightarrow> garbage \<Rightarrow> garbage \<Rightarrow> rng \<Rightarrow> int \<times> bytes \<times> bytes \<times> rng" where
  "OQS_KEM_kyber_768_encaps_custom_secret_CPA B cpu X P input_message ciphertext shared_secret
       public_key g_buf g_kr r =
     (if OQS_ENABLE_KEM_kyber_768_avx2 B then
        (if OQS_DIST_BUILD B \<and> \<not> avx2_cpu cpu then
           pqcrystals_kyber768_ref_enc X ciphertext shared_secret public_key r
         else
           (let (st, ct, ss) =
                  crypto_kem_enc_custom_secret_CPA P input_message ciphertext shared_secret
                    public_key g_buf g_kr
            in (st, ct, ss, r)))
      else if OQS_ENABLE_KEM_kyber_768_aarch64 B then
        (if OQS_DIST_BUILD B \<and> \<not> cpu OQS_CPU_EXT_ARM_NEON then
           pqcrystals_kyber768_ref_enc X ciphertext shared_secret public_key r
         else PQCLEAN_KYBER768_AARCH64_crypto_kem_enc X ciphertext shared_secret public_key r)
      else pqcrystals_kyber768_ref_enc X ciphertext shared_secret public_key r)"

definition OQS_KEM_kyber_768_encaps_custom_secret_CCA ::
  "build \<Rightarrow> (cpu_ext \<Rightarrow> bool) \<Rightarrow> externs \<Rightarrow> prims \<Rightarrow> bytes \<Rightarrow> bytes \<Rightarrow> bytes \<Rightarrow> bytes
     \<Rightarrow> garbage \<Rightarrow> garbage \<Rightarrow> rng \<Rightarrow> int \<times> bytes \<times> bytes \<times> rng" where
  "OQS_KEM_kyber_768_encaps_custom_secret_CCA B cpu X P input_message ciphertext shared_secret
       public_key g_buf g_kr r =
     (if OQS_ENABLE_KEM_kyber_768_avx2 B then
        (if OQS_DIST_BUILD B \<and> \<not> avx2_cpu cpu then
           pqcrystals_kyber768_ref_enc X ciphertext shared_secret public_key r
         else
           (let (st, ct, ss) =
                  crypto_kem_enc_custom_secret_CCA P input_message ciphertext shared_secret
                    public_key g_buf g_kr
            in (st, ct, ss, r)))
      else if OQS_ENABLE_KEM_kyber_768_aarch64 B then
        (if OQS_DIST_BUILD B \<and> \<not> cpu OQS_CPU_EXT_ARM_NEON then
           pqcrystals_kyber768_ref_enc X ciphertext shared_secret public_key r
         else PQCLEAN_KYBER768_AARCH64_crypto_kem_enc X ciphertext shared_secret public_key r)
      else pqcrystals_kyber768_ref_enc X ciphertext shared_secret public_key r)"

definition OQS_KEM_kyber_768_decaps ::
  "build \<Rightarrow> (cpu_ext \<Rightarrow> bool) \<Rightarrow> externs \<Rightarrow> prims \<Rightarrow> bytes \<Rightarrow> bytes \<Rightarrow> bytes
     \<Rightarrow> garbage \<Rightarrow> garbage \<Rightarrow> garbage \<Rightarrow> int \<times> bytes" where
  "OQS_KEM_kyber_768_decaps B cpu X P shared_secret ciphertext secret_key g_buf g_kr g_cmp =
     (if OQS_ENABLE_KEM_kyber_768_avx2 B then
        (if OQS_DIST_BUILD B \<and> \<not> avx2_cpu cpu then
           pqcrystals_kyber768_ref_dec X shared_secret ciphertext secret_key
         else crypto_kem_dec P shared_secret ciphertext secret_key g_buf g_kr g_cmp)
      else if OQS_ENABLE_KEM_kyber_768_aarch64 B then
        (if OQS_DIST_BUILD B \<and> \<not> cpu OQS_CPU_EXT_ARM_NEON then
           pqcrystals_kyber768_ref_dec X shared_secret ciphertext secret_key
         else PQCLEAN_KYBER768_AARCH64_crypto_kem_dec X shared_secret ciphertext secret_key)
      else pqcrystals_kyber768_ref_dec X shared_secret ciphertext secret_key)"

definition OQS_KEM_kyber_768_decaps_custom_secret_CPA ::
  "build \<Rightarrow> (cpu_ext \<Rightarrow> bool) \<Rightarrow> externs \<Rightarrow> prims \<Rightarrow> bytes \<Rightarrow> bytes \<Rightarrow> bytes
     \<Rightarrow> garbage \<Rightarrow> int \<times> bytes" where
  "OQS_KEM_kyber_768_decaps_custom_secret_CPA B cpu X P shared_secret ciphertext secret_key g_buf =
     (if OQS_ENABLE_KEM_kyber_768_avx2 B then
        (if OQS_DIST_BUILD B \<and> \<not> avx2_cpu cpu then
           pqcrystals_kyber768_ref_dec X shared_secret ciphertext secret_key
         else crypto_kem_dec_custom_secret_CPA P shared_secret ciphertext secret_key g_buf)
      else if OQS_ENABLE_KEM_kyber_768_aarch64 B then
        (if OQS_DIST_BUILD B \<and> \<not> cpu OQS_CPU_EXT_ARM_NEON then
           pqcrystals_kyber768_ref_dec X shared_secret ciphertext secret_key
         else PQCLEAN_KYBER768_AARCH64_crypto_kem_dec X shared_secret ciphertext secret_key)
      else pqcrystals_kyber768_ref_dec X shared_secret ciphertext secret_key)"

definition OQS_KEM_kyber_768_decaps_custom_secret_CCA ::
  "build \<Rightarrow> (cpu_ext \<Rightarrow> bool) \<Rightarrow> externs \<Rightarrow> prims \<Rightarrow> bytes \<Rightarrow> bytes \<Rightarrow> bytes
     \<Rightarrow> garbage \<Rightarrow> garbage \<Rightarrow> garbage \<Rightarrow> int \<times> bytes" where
  "OQS_KEM_kyber_768_decaps_custom_secret_CCA B cpu X P shared_secret ciphertext secret_key
       g_buf g_kr g_cmp =
     (if OQS_ENABLE_KEM_kyber_768_avx2 B then
        (if OQS_DIST_BUILD B \<and> \<not> avx2_cpu cpu then
           pqcrystals_kyber768_ref_dec X shared_secret ciphertext secret_key
         else crypto_kem_dec_custom_secret_CCA P shared_secret ciphertext secret_key
                g_buf g_kr g_cmp)
      else if OQS_ENABLE_KEM_kyber_768_aarch64 B then
        (if OQS_DIST_BUILD B \<and> \<not> cpu OQS_CPU_EXT_ARM_NEON then
           pqcrystals_kyber768_ref_dec X shared_secret ciphertext secret_key
         else PQCLEAN_KYBER768_AARCH64_crypto_kem_dec X shared_secret ciphertext secret_key)
      else pqcrystals_kyber768_ref_dec X shared_secret ciphertext secret_key)"

section \<open>Contracts of the primitives\<close>

text \<open>
  The fixed sizes of what the primitives write: \<^verbatim>\<open>hash_h\<close> is SHA3-256, \<^verbatim>\<open>hash_g\<close> is
  SHA3-512, \<^verbatim>\<open>kdf\<close> writes \<^verbatim>\<open>KYBER_SSBYTES\<close> bytes, and the encryption primitive
  writes keys, ciphertexts and messages of the declared lengths.
\<close>

definition prims_wf :: "prims \<Rightarrow> bool" where
  "prims_wf P \<longleftrightarrow>
     (\<forall>x. length (hash_h P x) = KYBER_SYMBYTES) \<and>
     (\<forall>x. length (hash_g P x) = 2 * KYBER_SYMBYTES) \<and>
     (\<forall>x. length (kdf P x) = KYBER_SSBYTES) \<and>
     (\<forall>m pk coins. length (indcpa_enc P m pk coins) = KYBER_INDCPA_BYTES P) \<and>
     (\<forall>c sk. length (indcpa_dec P c sk) = KYBER_INDCPA_MSGBYTES) \<and>
     (\<forall>r. length (fst (indcpa_keypair P r)) = KYBER_INDCPA_PUBLICKEYBYTES P \<and>
          length (fst (snd (indcpa_keypair P r))) = KYBER_INDCPA_SECRETKEYBYTES P) \<and>
     (\<forall>k. length (fst (indcpa_keypair_based_on_input P k)) = KYBER_INDCPA_PUBLICKEYBYTES P \<and>
          length (snd (indcpa_keypair_based_on_input P k)) = KYBER_INDCPA_SECRETKEYBYTES P)"

text \<open>
  The selection of the AVX2 implementation by the dispatch layer: it is compiled in, and
  in a distribution build the processor has the three extensions.
\<close>

definition avx2_selected :: "build \<Rightarrow> (cpu_ext \<Rightarrow> bool) \<Rightarrow> bool" where
  "avx2_selected B cpu \<longleftrightarrow>
     OQS_ENABLE_KEM_kyber_768_avx2 B \<and> \<not> (OQS_DIST_BUILD B \<and> \<not> avx2_cpu cpu)"

section \<open>The construction as the specification words it\<close>

text \<open>
  Encapsulation from a given 32-byte value \<open>m0\<close> (the sampled one in the standard
  operation, the caller's in the CCA custom-secret variant): hash it, bind it to the hash
  of the public key, split the output of G into key half and coins, encrypt, derive.
\<close>

definition spec_encapsulate :: "prims \<Rightarrow> bytes \<Rightarrow> bytes \<Rightarrow> bytes \<times> bytes" where
  "spec_encapsulate P m0 pk =
     (let m = hash_h P m0;
          d = hash_h P pk;
          g = hash_g P (m @ d);
          kbar = take 32 g;
          coins = drop 32 g;
          ct = indcpa_enc P m pk coins;
          h = hash_h P ct
      in (ct, kdf P (kbar @ h)))"

text \<open>
  Decapsulation with the secret key parsed into the primitive's secret key \<open>sk0\<close>, the
  public key, the stored hash \<open>d\<close> and the rejection seed \<open>z\<close>.
\<close>

definition spec_decapsulate :: "prims \<Rightarrow> bytes \<Rightarrow> bytes \<Rightarrow> bytes \<Rightarrow> bytes \<Rightarrow> bytes \<Rightarrow> bytes" where
  "spec_decapsulate P ct sk0 pk d z =
     (let m' = indcpa_dec P ct sk0;
          g = hash_g P (m' @ d);
          kbar' = take 32 g;
          coins' = drop 32 g;
          ct' = indcpa_enc P m' pk coins';
          h = hash_h P ct
      in kdf P ((if ct = ct' then kbar' else z) @ h))"

section \<open>A small instance of the primitives\<close>

text \<open>
  An instance with two-byte keys whose operations copy, shift and pad their inputs. It meets
  the size contracts and decrypts what it encrypts, so the assumptions of the theorems
  below can be met; its ciphertext shows message and coins in the clear.
\<close>

definition pad :: "nat \<Rightarrow> bytes \<Rightarrow> bytes" where
  "pad n xs = take n (xs @ replicate n 0)"

definition toy :: prims where
  "toy = \<lparr>KYBER_INDCPA_PUBLICKEYBYTES = 2,
          KYBER_INDCPA_SECRETKEYBYTES = 2,
          KYBER_INDCPA_BYTES = 64,
          indcpa_keypair = (\<lambda>r. ([r 0, r 1], [r 1, r 0], \<lambda>i. r (i + 2))),
          indcpa_keypair_based_on_input = (\<lambda>k. (pad 2 k, pad 2 (rev k))),
          indcpa_enc = (\<lambda>m pk coins. pad 32 m @ pad 32 coins),
          indcpa_dec = (\<lambda>c sk. pad 32 c),
          hash_h = (\<lambda>x. pad 32 (map (\<lambda>b. b + 1) x)),
          hash_g = (\<lambda>x. pad 64 (map (\<lambda>b. b + 2) x)),
          kdf = (\<lambda>x. pad 32 (map (\<lambda>b. b + 3) x))\<rparr>"

definition toy_externs :: externs where
  "toy_externs =
     \<lparr>pqcrystals_kyber768_ref_keypair = (\<lambda>pk sk r. (0, pk, sk, r)),
      pqcrystals_kyber768_ref_enc = (\<lambda>ct ss pk r. (0, ct, ss, r)),
      pqcrystals_kyber768_ref_dec = (\<lambda>ss ct sk. (0, ss)),
      PQCLEAN_KYBER768_AARCH64_crypto_kem_enc = (\<lambda>ct ss pk r. (0, ct, ss, r)),
      PQCLEAN_KYBER768_AARCH64_crypto_kem_dec = (\<lambda>ss ct sk. (0, ss))\<rparr>"

text \<open>
  The message of \<^verbatim>\<open>tests/example_kem.c\<close>, the bytes 0, 1, ..., 31, and three build
  configurations: AVX2 compiled in without run-time probing, a distribution build with
  AVX2 compiled in, and a build for aarch64.
\<close>

definition msg_0_31 :: bytes where
  "msg_0_31 = [0, 1, 2, 3, 4, 5, 6, 7, 8, 9, 10, 11, 12, 13, 14, 15, 16, 17, 18, 19, 20, 21,
     22, 23, 24, 25, 26, 27, 28, 29, 30, 31]"

definition avx2_build :: build where
  "avx2_build = \<lparr>OQS_ENABLE_KEM_kyber_768_avx2 = True,
     OQS_ENABLE_KEM_kyber_768_aarch64 = False, OQS_DIST_BUILD = False\<rparr>"

definition dist_build :: build where
  "dist_build = \<lparr>OQS_ENABLE_KEM_kyber_768_avx2 = True,
     OQS_ENABLE_KEM_kyber_768_aarch64 = False, OQS_DIST_BUILD = True\<rparr>"

definition aarch64_build :: build where
  "aarch64_build = \<lparr>OQS_ENABLE_KEM_kyber_768_avx2 = False,
     OQS_ENABLE_KEM_kyber_768_aarch64 = True, OQS_DIST_BUILD = False\<rparr>"

text \<open>
  A key pair of the small instance (generated from a random source that delivers ones), the
  ciphertext that encapsulation under it produces when the random source delivers fives,
  and a ciphertext that fails the re-encryption check.
\<close>

definition toy_pk :: bytes where
  "toy_pk = [1, 1]"

definition toy_sk :: bytes where
  "toy_sk = [1, 1, 1, 1, 2, 2] @ replicate 30 0 @ replicate 32 1"

definition toy_ct :: bytes where
  "toy_ct = replicate 32 6 @ [4, 4] @ replicate 30 2"

definition bad_ct :: bytes where
  "bad_ct = replicate 64 9"

section \<open>Buffers\<close>

lemma length_alloca [simp]: "length (alloca g n) = n"
  by (simp add: alloca_def)

lemma load_alloca: "off + n \<le> k \<Longrightarrow> load (alloca g k) off n = map g [off..<off + n]"
  by (simp add: load_def alloca_def drop_map take_map)

lemma store_exact: "length src = n \<Longrightarrow> store mem 0 src n = src @ drop n mem"
  by (simp add: store_def)

lemma length_copy_loop [simp]: "length (copy_loop n dst src) = length dst"
proof -
  have "length (fold (\<lambda>i d. d[i := src ! i]) xs dst) = length dst" for xs
    by (induction xs arbitrary: dst) simp_all
  then show ?thesis by (simp add: copy_loop_def)
qed

lemma copy_loop_Suc: "copy_loop (Suc n) dst src = (copy_loop n dst src)[n := src ! n]"
  by (simp add: copy_loop_def)

lemma copy_loop_eq:
  "n \<le> length dst \<Longrightarrow> n \<le> length src \<Longrightarrow> copy_loop n dst src = take n src @ drop n dst"
proof (induction n)
  case 0
  then show ?case by (simp add: copy_loop_def)
next
  case (Suc n)
  then have ih: "copy_loop n dst src = take n src @ drop n dst" by simp
  have "copy_loop (Suc n) dst src = take n src @ (drop n dst)[0 := src ! n]"
    using Suc.prems by (simp add: copy_loop_Suc ih list_update_append)
  also have "drop n dst = dst ! n # drop (Suc n) dst"
    using Suc.prems by (simp add: Cons_nth_drop_Suc)
  finally show ?case
    using Suc.prems by (simp add: take_Suc_conv_app_nth)
qed

lemma drop_copy_loop: "n \<le> k \<Longrightarrow> drop k (copy_loop n dst src) = drop k dst"
proof (induction n)
  case 0
  then show ?case by (simp add: copy_loop_def)
next
  case (Suc n)
  then show ?case by (simp add: copy_loop_Suc)
qed

section \<open>What the functions of \<^verbatim>\<open>kem.c\<close> compute\<close>

lemmas sizes = KYBER_SYMBYTES_def KYBER_SSBYTES_def KYBER_INDCPA_MSGBYTES_def
  KYBER_PUBLICKEYBYTES_def KYBER_SECRETKEYBYTES_def KYBER_CIPHERTEXTBYTES_def

lemma wf_hash_h: "prims_wf P \<Longrightarrow> length (hash_h P x) = 32"
  and wf_hash_g: "prims_wf P \<Longrightarrow> length (hash_g P x) = 64"
  and wf_kdf: "prims_wf P \<Longrightarrow> length (kdf P x) = 32"
  and wf_enc: "prims_wf P \<Longrightarrow> length (indcpa_enc P m pk c) = KYBER_INDCPA_BYTES P"
  and wf_dec: "prims_wf P \<Longrightarrow> length (indcpa_dec P ct sk) = 32"
  by (simp_all add: prims_wf_def sizes)

lemma wf_keypair:
  "prims_wf P \<Longrightarrow> indcpa_keypair P r = (pk0, sk0, r1) \<Longrightarrow>
     length pk0 = KYBER_INDCPA_PUBLICKEYBYTES P \<and> length sk0 = KYBER_INDCPA_SECRETKEYBYTES P"
  unfolding prims_wf_def by (metis fst_conv snd_conv)

lemma wf_keypair_input:
  "prims_wf P \<Longrightarrow> indcpa_keypair_based_on_input P k = (pk0, sk0) \<Longrightarrow>
     length pk0 = KYBER_INDCPA_PUBLICKEYBYTES P \<and> length sk0 = KYBER_INDCPA_SECRETKEYBYTES P"
  unfolding prims_wf_def by (metis fst_conv snd_conv)

lemma copy_loop_alloca:
  "length m = 32 \<Longrightarrow> copy_loop 32 (alloca g 64) m = m @ map g [32..<64]"
  by (simp add: copy_loop_eq alloca_def drop_map)

lemma enc_cpa_result:
  assumes "length m = 32"
  shows "crypto_kem_enc_custom_secret_CPA P m ct ss pk g_buf g_kr =
     (0,
      store ct 0
        (indcpa_enc P m (load pk 0 (KYBER_INDCPA_PUBLICKEYBYTES P)) (map g_kr [32..<64]))
        (KYBER_INDCPA_BYTES P),
      m @ map g_buf [32..<64] @ drop 64 ss)"
  using assms
  by (simp add: crypto_kem_enc_custom_secret_CPA_def sizes Let_def copy_loop_alloca
      load_alloca memcpy_def) (simp add: load_def store_def)

lemma enc_result:
  assumes wf: "prims_wf P"
  shows "crypto_kem_enc P ct ss pk g_buf g_kr r =
     (let (c, k) = spec_encapsulate P (map r [0..<32])
                     (load pk 0 (KYBER_INDCPA_PUBLICKEYBYTES P))
      in (0, c @ drop (KYBER_INDCPA_BYTES P) ct, k @ drop 32 ss, \<lambda>i. r (i + 32)))"
  using wf
  by (simp add: crypto_kem_enc_def spec_encapsulate_def randombytes_def sizes Let_def
      load_def store_def wf_hash_h wf_hash_g wf_kdf wf_enc)

lemma enc_cca_result:
  assumes wf: "prims_wf P" and m: "length m = 32"
  shows "crypto_kem_enc_custom_secret_CCA P m ct ss pk g_buf g_kr =
     (let (c, k) = spec_encapsulate P m (load pk 0 (KYBER_INDCPA_PUBLICKEYBYTES P))
      in (0, c @ drop (KYBER_INDCPA_BYTES P) ct, k @ drop 32 ss))"
  using wf m
  by (simp add: crypto_kem_enc_custom_secret_CCA_def spec_encapsulate_def sizes Let_def
      copy_loop_alloca load_def store_def wf_hash_h wf_hash_g wf_kdf wf_enc)

lemma keypair_result:
  assumes wf: "prims_wf P" and kp: "indcpa_keypair P r = (pk0, sk0, r1)"
  shows "crypto_kem_keypair P pk sk r =
     (0, pk0 @ drop (KYBER_INDCPA_PUBLICKEYBYTES P) pk,
      sk0 @ pk0 @ hash_h P pk0 @ map r1 [0..<32] @ drop (KYBER_SECRETKEYBYTES P) sk,
      \<lambda>i. r1 (i + 32))"
  using wf_keypair [OF wf kp] wf_hash_h [OF wf]
  by (simp add: crypto_kem_keypair_def kp randombytes_def sizes Let_def memcpy_def
      load_def store_def ac_simps)

lemma keypair_input_result:
  assumes wf: "prims_wf P" and kp: "indcpa_keypair_based_on_input P k = (pk0, sk0)"
    and k: "length k = 32"
  shows "crypto_kem_keypair_based_on_input P k pk sk g =
     (0, pk0 @ drop (KYBER_INDCPA_PUBLICKEYBYTES P) pk,
      sk0 @ pk0 @ hash_h P pk0 @ k @ drop (KYBER_SECRETKEYBYTES P) sk)"
  using wf_keypair_input [OF wf kp] wf_hash_h [OF wf] k
  by (simp add: crypto_kem_keypair_based_on_input_def kp sizes Let_def memcpy_def
      copy_loop_alloca load_def store_def ac_simps)

lemma dec_locals_result:
  assumes wf: "prims_wf P" and sk: "KYBER_SECRETKEYBYTES P \<le> length sk"
  shows "dec_locals P ct sk g_buf g_kr g_cmp =
     (let m' = indcpa_dec P (load ct 0 (KYBER_INDCPA_BYTES P))
                 (load sk 0 (KYBER_INDCPA_SECRETKEYBYTES P));
          g = hash_g P (m' @ load sk (KYBER_SECRETKEYBYTES P - 64) 32);
          ct' = indcpa_enc P m'
                  (load sk (KYBER_INDCPA_SECRETKEYBYTES P) (KYBER_INDCPA_PUBLICKEYBYTES P))
                  (drop 32 g)
      in (if load ct 0 (KYBER_INDCPA_BYTES P) = ct' then 0 else 1,
          take 32 g @ hash_h P (load ct 0 (KYBER_INDCPA_BYTES P))))"
  using wf sk
  by (simp add: dec_locals_def verify_def sizes Let_def memcpy_def
      load_def store_def wf_hash_h wf_hash_g wf_kdf wf_enc wf_dec)

lemma dec_result:
  assumes wf: "prims_wf P" and sk: "KYBER_SECRETKEYBYTES P \<le> length sk"
  shows "crypto_kem_dec P ss ct sk g_buf g_kr g_cmp =
     (0, spec_decapsulate P (load ct 0 (KYBER_INDCPA_BYTES P))
           (load sk 0 (KYBER_INDCPA_SECRETKEYBYTES P))
           (load sk (KYBER_INDCPA_SECRETKEYBYTES P) (KYBER_INDCPA_PUBLICKEYBYTES P))
           (load sk (KYBER_SECRETKEYBYTES P - 64) 32)
           (load sk (KYBER_SECRETKEYBYTES P - 32) 32)
         @ drop 32 ss)"
  using wf sk
  by (simp add: crypto_kem_dec_def dec_locals_result [OF wf sk] spec_decapsulate_def
      cmov_def Let_def)
     (simp add: sizes load_def store_def wf_hash_h wf_hash_g wf_kdf wf_enc wf_dec)

lemma dec_cca_eq:
  "crypto_kem_dec_custom_secret_CCA P ss ct sk g_buf g_kr g_cmp =
   crypto_kem_dec P ss ct sk g_buf g_kr g_cmp"
  by (simp add: crypto_kem_dec_custom_secret_CCA_def crypto_kem_dec_def dec_locals_def Let_def)

lemma spec_encapsulate_lengths:
  assumes wf: "prims_wf P"
  shows "length (fst (spec_encapsulate P m0 pk0)) = KYBER_INDCPA_BYTES P"
    and "length (snd (spec_encapsulate P m0 pk0)) = 32"
  by (simp_all add: spec_encapsulate_def Let_def wf_enc [OF wf] wf_kdf [OF wf])

text \<open>
  Decapsulation of a ciphertext that encrypts \<open>hash_h P m0\<close> under a generated key pair,
  when the primitive decrypts it to that plaintext.
\<close>

lemma dec_after_encapsulate:
  assumes wf: "prims_wf P"
    and kp: "crypto_kem_keypair P pk_mem sk_mem r = (st_k, pk, sk, r1)"
    and ct: "load ct 0 (KYBER_INDCPA_BYTES P) =
               fst (spec_encapsulate P m0 (load pk 0 (KYBER_INDCPA_PUBLICKEYBYTES P)))"
    and pke: "indcpa_dec P (load ct 0 (KYBER_INDCPA_BYTES P))
                (load sk 0 (KYBER_INDCPA_SECRETKEYBYTES P)) = hash_h P m0"
  shows "crypto_kem_dec P ss_mem ct sk g_buf g_kr g_cmp =
           (0, snd (spec_encapsulate P m0 (load pk 0 (KYBER_INDCPA_PUBLICKEYBYTES P))) @
               drop 32 ss_mem)"
proof -
  obtain pk0 sk0 rr where ikp: "indcpa_keypair P r = (pk0, sk0, rr)"
    by (cases "indcpa_keypair P r") auto
  note len = wf_keypair [OF wf ikp]
  from kp have pk: "pk = pk0 @ drop (KYBER_INDCPA_PUBLICKEYBYTES P) pk_mem"
    and sk: "sk = sk0 @ pk0 @ hash_h P pk0 @ map rr [0..<32] @
                    drop (KYBER_SECRETKEYBYTES P) sk_mem"
    by (simp_all add: keypair_result [OF wf ikp])
  have sk_len: "KYBER_SECRETKEYBYTES P \<le> length sk"
    using len by (simp add: sk sizes wf_hash_h [OF wf])
  have pk_load: "load pk 0 (KYBER_INDCPA_PUBLICKEYBYTES P) = pk0"
    using len by (simp add: pk load_def)
  have sk_parts:
    "load sk 0 (KYBER_INDCPA_SECRETKEYBYTES P) = sk0"
    "load sk (KYBER_INDCPA_SECRETKEYBYTES P) (KYBER_INDCPA_PUBLICKEYBYTES P) = pk0"
    "load sk (KYBER_SECRETKEYBYTES P - 64) 32 = hash_h P pk0"
    using len by (simp_all add: sk load_def sizes wf_hash_h [OF wf])
  define c where "c = fst (spec_encapsulate P m0 pk0)"
  define k where "k = snd (spec_encapsulate P m0 pk0)"
  define G where "G = hash_g P (hash_h P m0 @ hash_h P pk0)"
  have ct_load: "load ct 0 (KYBER_INDCPA_BYTES P) = c"
    by (simp add: ct pk_load c_def)
  have m': "indcpa_dec P c sk0 = hash_h P m0"
    using pke by (simp add: ct_load sk_parts)
  have c_eq: "c = indcpa_enc P (hash_h P m0) pk0 (drop 32 G)"
    by (simp add: c_def G_def spec_encapsulate_def Let_def)
  have k_eq: "k = kdf P (take 32 G @ hash_h P c)"
    by (simp add: k_def c_def G_def spec_encapsulate_def Let_def)
  have "spec_decapsulate P c sk0 pk0 (hash_h P pk0) z = k" for z
    unfolding spec_decapsulate_def Let_def m' G_def [symmetric] c_eq [symmetric] k_eq
    by simp
  then show ?thesis
    by (simp add: dec_result [OF wf sk_len] ct_load sk_parts pk_load k_def)
qed

lemma dec_cpa_result:
  assumes wf: "prims_wf P"
  shows "crypto_kem_dec_custom_secret_CPA P ss ct sk g_buf =
     (0, indcpa_dec P (load ct 0 (KYBER_INDCPA_BYTES P))
           (load sk 0 (KYBER_INDCPA_SECRETKEYBYTES P)) @
         map g_buf [32..<64] @ drop 64 ss)"
  by (simp add: crypto_kem_dec_custom_secret_CPA_def sizes Let_def memcpy_def)
     (simp add: load_def store_def alloca_def wf_dec [OF wf] drop_map)

section \<open>Which implementation the dispatch layer calls\<close>

lemma avx2_selected_encaps_CPA:
  "avx2_selected B cpu \<Longrightarrow>
     OQS_KEM_kyber_768_encaps_custom_secret_CPA B cpu X P m ct ss pk g_buf g_kr r =
       (let (st, ct', ss') = crypto_kem_enc_custom_secret_CPA P m ct ss pk g_buf g_kr
        in (st, ct', ss', r))"
  by (auto simp: avx2_selected_def OQS_KEM_kyber_768_encaps_custom_secret_CPA_def)

lemma fallback_encaps_CPA:
  "\<not> avx2_selected B cpu \<Longrightarrow>
     OQS_KEM_kyber_768_encaps_custom_secret_CPA B cpu X P m ct ss pk g_buf g_kr r =
     OQS_KEM_kyber_768_encaps B cpu X P ct ss pk g_buf g_kr r"
  by (auto simp: avx2_selected_def OQS_KEM_kyber_768_encaps_custom_secret_CPA_def
      OQS_KEM_kyber_768_encaps_def)

lemma avx2_selected_avx2_build: "avx2_selected avx2_build cpu"
  by (simp add: avx2_selected_def avx2_build_def)

lemma not_selected_dist: "\<not> avx2_selected dist_build (\<lambda>e. False)"
  by (simp add: avx2_selected_def dist_build_def avx2_cpu_def)

section \<open>The small instance\<close>

lemma length_pad [simp]: "length (pad n xs) = n"
  by (simp add: pad_def)

lemma pad_exact [simp]: "length xs = n \<Longrightarrow> pad n xs = xs"
  by (simp add: pad_def)

lemma toy_wf: "prims_wf toy"
  by (simp add: prims_wf_def toy_def sizes)

lemma toy_sel [simp]:
  "KYBER_INDCPA_PUBLICKEYBYTES toy = 2" "KYBER_INDCPA_SECRETKEYBYTES toy = 2"
  "KYBER_INDCPA_BYTES toy = 64"
  "indcpa_keypair toy r = ([r 0, r 1], [r 1, r 0], \<lambda>i. r (i + 2))"
  "indcpa_keypair_based_on_input toy k = (pad 2 k, pad 2 (rev k))"
  "indcpa_enc toy m pk coins = pad 32 m @ pad 32 coins"
  "indcpa_dec toy c sk = pad 32 c"
  "hash_h toy x = pad 32 (map (\<lambda>b. b + 1) x)"
  "hash_g toy x = pad 64 (map (\<lambda>b. b + 2) x)"
  "kdf toy x = pad 32 (map (\<lambda>b. b + 3) x)"
  by (simp_all add: toy_def)

lemma length_msg_0_31: "length msg_0_31 = 32"
  by (simp add: msg_0_31_def)

lemma const_bytes: "map (\<lambda>i. c) [a..<b] = replicate (b - a) c"
  by (simp add: map_replicate_const)

lemma map_nth_shift: "map (\<lambda>i. x ! (i - a)) [a..<a + length x] = x"
  by (rule nth_equalityI) simp_all

lemma toy_keypair:
  "crypto_kem_keypair toy [0, 0] (replicate 68 0) (\<lambda>i. 1) = (0, toy_pk, toy_sk, \<lambda>i. 1)"
  by (simp add: keypair_result [OF toy_wf] pad_def const_bytes sizes toy_pk_def toy_sk_def)

lemma toy_enc:
  "crypto_kem_enc toy (replicate 64 0) (replicate 32 0) toy_pk g_buf g_kr (\<lambda>i. 5) =
     (0, toy_ct, replicate 32 11, \<lambda>i. 5)"
  by (simp add: enc_result [OF toy_wf] spec_encapsulate_def Let_def pad_def const_bytes
      load_def toy_pk_def toy_ct_def)

lemma toy_sk_length: "KYBER_SECRETKEYBYTES toy \<le> length toy_sk"
  by (simp add: sizes toy_sk_def)

lemma toy_pke:
  "indcpa_dec toy (load toy_ct 0 (KYBER_CIPHERTEXTBYTES toy))
     (load toy_sk 0 (KYBER_INDCPA_SECRETKEYBYTES toy)) =
   hash_h toy (fst (randombytes (\<lambda>i. 5) KYBER_SYMBYTES))"
  by (simp add: sizes load_def randombytes_def const_bytes pad_def toy_ct_def)

lemma toy_mismatch: "replicate 64 (9 :: byte) \<noteq> replicate 32 9 @ 4 # 4 # replicate 30 2"
  by code_simp

lemma toy_dec_locals:
  "dec_locals toy bad_ct toy_sk g_buf g_kr g_cmp = (1, replicate 32 11 @ replicate 32 10)"
  by (simp add: dec_locals_result [OF toy_wf toy_sk_length])
     (simp add: sizes Let_def load_def pad_def toy_mismatch toy_sk_def bad_ct_def)

lemma toy_fail: "fst (dec_locals toy bad_ct toy_sk g_buf g_kr g_cmp) \<noteq> 0"
  by (simp add: toy_dec_locals)

lemma toy_enc_cca:
  "crypto_kem_enc_custom_secret_CCA toy (replicate 32 5) (replicate 64 0) (replicate 32 0)
     toy_pk g_buf g_kr = (0, toy_ct, replicate 32 11)"
  by (simp add: enc_cca_result [OF toy_wf] spec_encapsulate_def Let_def pad_def
      load_def toy_pk_def toy_ct_def)

lemma toy_pke_cca:
  "indcpa_dec toy (load toy_ct 0 (KYBER_CIPHERTEXTBYTES toy))
     (load toy_sk 0 (KYBER_INDCPA_SECRETKEYBYTES toy)) = hash_h toy (replicate 32 5)"
  by (simp add: sizes load_def pad_def toy_ct_def)

lemma toy_spec_encapsulate:
  "spec_encapsulate toy (replicate 32 5) (load toy_pk 0 (KYBER_PUBLICKEYBYTES toy)) =
     (toy_ct, replicate 32 11)"
  by (simp add: spec_encapsulate_def Let_def pad_def load_def toy_pk_def toy_ct_def sizes)

lemma toy_coins_matter:
  "store (replicate 64 0) 0
     (indcpa_enc toy msg_0_31 (load toy_pk 0 (KYBER_INDCPA_PUBLICKEYBYTES toy)) (replicate 32 0))
     (KYBER_INDCPA_BYTES toy) \<noteq>
   store (replicate 64 0) 0
     (indcpa_enc toy msg_0_31 (load toy_pk 0 (KYBER_INDCPA_PUBLICKEYBYTES toy)) (replicate 32 1))
     (KYBER_INDCPA_BYTES toy)"
proof -
  have "replicate 32 (0 :: byte) \<noteq> replicate 32 1"
    by code_simp
  then show ?thesis
    by (simp add: store_def length_msg_0_31)
qed

lemma zeros_not_msg: "replicate 32 (0 :: byte) \<noteq> msg_0_31"
  unfolding msg_0_31_def by code_simp

lemma toy_fallback_encaps_CPA:
  "OQS_KEM_kyber_768_encaps_custom_secret_CPA dist_build (\<lambda>e. False) toy_externs toy m
     (replicate 64 0) (replicate 32 0) toy_pk (\<lambda>i. 0) (\<lambda>i. 0) (\<lambda>i. 5) =
   (0, replicate 64 0, replicate 32 0, \<lambda>i. 5)"
  by (simp add: OQS_KEM_kyber_768_encaps_custom_secret_CPA_def dist_build_def avx2_cpu_def
      toy_externs_def)

section \<open>The CPA custom-secret encapsulation on the AVX2 path\<close>

text \<open>
  For every public key and every 32-byte message \<open>m\<close>, \<^verbatim>\<open>crypto_kem_enc_custom_secret_CPA\<close>
  succeeds, the ciphertext it writes is the primitive's encryption of the plaintext \<open>m\<close>
  itself, and the first \<open>KYBER_SSBYTES\<close> bytes it writes at \<^verbatim>\<open>ss\<close> are \<open>m\<close>.
  \<^verbatim>\<open>OQS_KEM_kyber_768_encaps_custom_secret_CPA\<close> returns the same where the AVX2
  implementation is the one selected.
\<close>

lemma enc_custom_secret_CPA_avx2_path:
  assumes m: "length m = 32"
  shows "\<exists>coins ss'.
           crypto_kem_enc_custom_secret_CPA P m ct ss pk g_buf g_kr =
             (OQS_SUCCESS,
              store ct 0 (indcpa_enc P m (load pk 0 (KYBER_INDCPA_PUBLICKEYBYTES P)) coins)
                (KYBER_INDCPA_BYTES P),
              ss') \<and>
           load ss' 0 KYBER_SSBYTES = m \<and>
           (avx2_selected B cpu \<longrightarrow>
              OQS_KEM_kyber_768_encaps_custom_secret_CPA B cpu X P m ct ss pk g_buf g_kr r =
                (OQS_SUCCESS,
                 store ct 0 (indcpa_enc P m (load pk 0 (KYBER_INDCPA_PUBLICKEYBYTES P)) coins)
                   (KYBER_INDCPA_BYTES P),
                 ss', r))"
proof (intro exI conjI impI)
  show "crypto_kem_enc_custom_secret_CPA P m ct ss pk g_buf g_kr =
     (OQS_SUCCESS,
      store ct 0
        (indcpa_enc P m (load pk 0 (KYBER_INDCPA_PUBLICKEYBYTES P)) (map g_kr [32..<64]))
        (KYBER_INDCPA_BYTES P),
      m @ map g_buf [32..<64] @ drop 64 ss)"
    by (simp add: enc_cpa_result [OF m] OQS_SUCCESS_def)
  show "load (m @ map g_buf [32..<64] @ drop 64 ss) 0 KYBER_SSBYTES = m"
    using m by (simp add: load_def sizes)
  assume "avx2_selected B cpu"
  then show "OQS_KEM_kyber_768_encaps_custom_secret_CPA B cpu X P m ct ss pk g_buf g_kr r =
     (OQS_SUCCESS,
      store ct 0
        (indcpa_enc P m (load pk 0 (KYBER_INDCPA_PUBLICKEYBYTES P)) (map g_kr [32..<64]))
        (KYBER_INDCPA_BYTES P),
      m @ map g_buf [32..<64] @ drop 64 ss, r)"
    by (simp add: avx2_selected_encaps_CPA enc_cpa_result [OF m] OQS_SUCCESS_def)
qed

lemma enc_custom_secret_CPA_avx2_path_example:
  "length msg_0_31 = 32 \<and>
   avx2_selected avx2_build (\<lambda>e. False) \<and>
   load (fst (snd (snd (OQS_KEM_kyber_768_encaps_custom_secret_CPA avx2_build (\<lambda>e. False)
       toy_externs toy msg_0_31 (replicate 64 0) (replicate 32 0) [7, 9]
       (\<lambda>i. 0) (\<lambda>i. 0) (\<lambda>i. 0))))) 0 KYBER_SSBYTES = msg_0_31"
proof -
  note m = length_msg_0_31
  note sel = avx2_selected_avx2_build [of "\<lambda>e. False"]
  from enc_custom_secret_CPA_avx2_path [OF m, of toy "replicate 64 0" "replicate 32 0" "[7, 9]"
      "\<lambda>i. 0" "\<lambda>i. 0" avx2_build "\<lambda>e. False" toy_externs "\<lambda>i. 0"] sel
  show ?thesis
    using m by auto
qed

section \<open>The claims\<close>

text \<open>
  C1. The claim is that \<^verbatim>\<open>encapsulate_cpa_custom(pk, m)\<close> returns a shared secret equal to
  \<open>m\<close> for every public key and every 32-byte message. \<^verbatim>\<open>crypto_kem_enc_custom_secret_CPA\<close>
  does (see above), but the entry point \<^verbatim>\<open>OQS_KEM_kyber_768_encaps_custom_secret_CPA\<close>
  reaches it only in the AVX2 branch. In every other branch it calls the standard
  encapsulation of the reference or aarch64 implementation, which is not given
  \<^verbatim>\<open>input_message\<close>: the result is the same for all messages, so for some 32-byte message
  the shared secret written is not that message.
\<close>

theorem encaps_custom_secret_CPA_fallback_ignores_message:
  assumes fb: "\<not> avx2_selected B cpu"
  shows "(\<forall>m'. OQS_KEM_kyber_768_encaps_custom_secret_CPA B cpu X P m' ct ss pk g_buf g_kr r =
               OQS_KEM_kyber_768_encaps_custom_secret_CPA B cpu X P m ct ss pk g_buf g_kr r) \<and>
         (\<exists>m0. length m0 = 32 \<and>
               load (fst (snd (snd (OQS_KEM_kyber_768_encaps_custom_secret_CPA B cpu X P m0 ct ss
                       pk g_buf g_kr r)))) 0 KYBER_SSBYTES \<noteq> m0)"
proof -
  let ?f = "\<lambda>m0. OQS_KEM_kyber_768_encaps_custom_secret_CPA B cpu X P m0 ct ss pk g_buf g_kr r"
  let ?s = "\<lambda>m0. load (fst (snd (snd (?f m0)))) 0 KYBER_SSBYTES"
  have same: "?f m' = ?f m" for m'
    by (simp add: fallback_encaps_CPA [OF fb])
  have "?s (replicate 32 0) \<noteq> replicate 32 0 \<or> ?s (replicate 32 1) \<noteq> replicate 32 1"
  proof (rule ccontr)
    assume "\<not> ?thesis"
    then have "replicate 32 (0 :: byte) = replicate 32 1"
      using same [of "replicate 32 0"] same [of "replicate 32 1"] by simp
    then have "hd (replicate 32 (0 :: byte)) = hd (replicate 32 1)"
      by simp
    then show False
      by simp
  qed
  then have "\<exists>m0. length m0 = 32 \<and> ?s m0 \<noteq> m0"
    by (metis length_replicate)
  with same show ?thesis
    by blast
qed

theorem encaps_custom_secret_CPA_fallback_ignores_message_witness:
  "\<not> avx2_selected dist_build (\<lambda>e. False) \<and> length msg_0_31 = 32 \<and>
   OQS_KEM_kyber_768_encaps_custom_secret_CPA dist_build (\<lambda>e. False) toy_externs toy msg_0_31
     (replicate 64 0) (replicate 32 0) toy_pk (\<lambda>i. 0) (\<lambda>i. 0) (\<lambda>i. 5) =
   OQS_KEM_kyber_768_encaps_custom_secret_CPA dist_build (\<lambda>e. False) toy_externs toy
     (replicate 32 0) (replicate 64 0) (replicate 32 0) toy_pk (\<lambda>i. 0) (\<lambda>i. 0) (\<lambda>i. 5) \<and>
   load (fst (snd (snd (OQS_KEM_kyber_768_encaps_custom_secret_CPA dist_build (\<lambda>e. False)
       toy_externs toy msg_0_31 (replicate 64 0) (replicate 32 0) toy_pk
       (\<lambda>i. 0) (\<lambda>i. 0) (\<lambda>i. 5))))) 0 KYBER_SSBYTES = replicate 32 0 \<and>
   load (fst (snd (snd (OQS_KEM_kyber_768_encaps_custom_secret_CPA dist_build (\<lambda>e. False)
       toy_externs toy msg_0_31 (replicate 64 0) (replicate 32 0) toy_pk
       (\<lambda>i. 0) (\<lambda>i. 0) (\<lambda>i. 5))))) 0 KYBER_SSBYTES \<noteq> msg_0_31"
proof -
  note t = encaps_custom_secret_CPA_fallback_ignores_message [OF not_selected_dist,
      where X = toy_externs and P = toy and m = "replicate 32 0" and ct = "replicate 64 0"
        and ss = "replicate 32 0" and pk = toy_pk and g_buf = "\<lambda>i. 0" and g_kr = "\<lambda>i. 0"
        and r = "\<lambda>i. 5"]
  have z: "load (fst (snd (snd (OQS_KEM_kyber_768_encaps_custom_secret_CPA dist_build
      (\<lambda>e. False) toy_externs toy (replicate 32 0) (replicate 64 0) (replicate 32 0) toy_pk
      (\<lambda>i. 0) (\<lambda>i. 0) (\<lambda>i. 5))))) 0 KYBER_SSBYTES = replicate 32 0"
    by (simp add: toy_fallback_encaps_CPA load_def sizes)
  from t have same: "OQS_KEM_kyber_768_encaps_custom_secret_CPA dist_build (\<lambda>e. False)
      toy_externs toy msg_0_31 (replicate 64 0) (replicate 32 0) toy_pk (\<lambda>i. 0) (\<lambda>i. 0)
      (\<lambda>i. 5) =
    OQS_KEM_kyber_768_encaps_custom_secret_CPA dist_build (\<lambda>e. False) toy_externs toy
      (replicate 32 0) (replicate 64 0) (replicate 32 0) toy_pk (\<lambda>i. 0) (\<lambda>i. 0) (\<lambda>i. 5)"
    by blast
  from same z zeros_not_msg
  have ne: "load (fst (snd (snd (OQS_KEM_kyber_768_encaps_custom_secret_CPA dist_build
      (\<lambda>e. False) toy_externs toy msg_0_31 (replicate 64 0) (replicate 32 0) toy_pk
      (\<lambda>i. 0) (\<lambda>i. 0) (\<lambda>i. 5))))) 0 KYBER_SSBYTES \<noteq> msg_0_31"
    by simp
  from same z have "load (fst (snd (snd (OQS_KEM_kyber_768_encaps_custom_secret_CPA dist_build
      (\<lambda>e. False) toy_externs toy msg_0_31 (replicate 64 0) (replicate 32 0) toy_pk
      (\<lambda>i. 0) (\<lambda>i. 0) (\<lambda>i. 5))))) 0 KYBER_SSBYTES = replicate 32 0"
    by simp
  with not_selected_dist length_msg_0_31 same ne show ?thesis
    by blast
qed

text \<open>
  C2. For a key pair written by \<^verbatim>\<open>crypto_kem_keypair\<close> and a ciphertext and shared secret
  written by \<^verbatim>\<open>crypto_kem_enc\<close> under its public key, \<^verbatim>\<open>crypto_kem_dec\<close> succeeds and
  writes the same \<open>KYBER_SSBYTES\<close> bytes of shared secret. The primitives are parameters:
  they are assumed to keep their size contracts, and the primitive's decryption is assumed
  to recover the plaintext that was encrypted, the hash of the sampled bytes.
\<close>

theorem kem_roundtrip:
  assumes wf: "prims_wf P"
    and kp: "crypto_kem_keypair P pk_mem sk_mem r = (st_k, pk, sk, r1)"
    and enc: "crypto_kem_enc P ct_mem ss_mem pk g_buf g_kr r' = (st_e, ct, ss, r2)"
    and pke: "indcpa_dec P (load ct 0 (KYBER_CIPHERTEXTBYTES P))
                (load sk 0 (KYBER_INDCPA_SECRETKEYBYTES P)) =
              hash_h P (fst (randombytes r' KYBER_SYMBYTES))"
  shows "\<exists>ss_d. crypto_kem_dec P ss_mem' ct sk g_buf' g_kr' g_cmp' = (OQS_SUCCESS, ss_d) \<and>
           load ss_d 0 KYBER_SSBYTES = load ss 0 KYBER_SSBYTES"
proof -
  let ?e = "spec_encapsulate P (map r' [0..<32]) (load pk 0 (KYBER_INDCPA_PUBLICKEYBYTES P))"
  from enc have ct: "ct = fst ?e @ drop (KYBER_INDCPA_BYTES P) ct_mem"
    and ss: "ss = snd ?e @ drop 32 ss_mem"
    by (simp_all add: enc_result [OF wf] split_beta)
  have ct_load: "load ct 0 (KYBER_INDCPA_BYTES P) = fst ?e"
    by (simp add: ct load_def spec_encapsulate_lengths [OF wf])
  from pke have pke': "indcpa_dec P (load ct 0 (KYBER_INDCPA_BYTES P))
      (load sk 0 (KYBER_INDCPA_SECRETKEYBYTES P)) = hash_h P (map r' [0..<32])"
    by (simp add: sizes randombytes_def)
  show ?thesis
    by (simp add: dec_after_encapsulate [OF wf kp ct_load pke'] OQS_SUCCESS_def ss load_def
        sizes spec_encapsulate_lengths [OF wf])
qed

theorem kem_roundtrip_witness:
  "prims_wf toy \<and>
   crypto_kem_keypair toy [0, 0] (replicate 68 0) (\<lambda>i. 1) = (0, toy_pk, toy_sk, \<lambda>i. 1) \<and>
   crypto_kem_enc toy (replicate 64 0) (replicate 32 0) toy_pk (\<lambda>i. 0) (\<lambda>i. 0) (\<lambda>i. 5) =
     (0, toy_ct, replicate 32 11, \<lambda>i. 5) \<and>
   indcpa_dec toy (load toy_ct 0 (KYBER_CIPHERTEXTBYTES toy))
     (load toy_sk 0 (KYBER_INDCPA_SECRETKEYBYTES toy)) =
     hash_h toy (fst (randombytes (\<lambda>i. 5) KYBER_SYMBYTES)) \<and>
   (\<exists>ss_d. crypto_kem_dec toy (replicate 32 0) toy_ct toy_sk (\<lambda>i. 0) (\<lambda>i. 0) (\<lambda>i. 0) =
             (OQS_SUCCESS, ss_d) \<and>
           load ss_d 0 KYBER_SSBYTES = load (replicate 32 11) 0 KYBER_SSBYTES)"
  using toy_wf toy_keypair toy_enc toy_pke
    kem_roundtrip [OF toy_wf toy_keypair toy_enc toy_pke, of "replicate 32 0"
      "\<lambda>i. 0" "\<lambda>i. 0" "\<lambda>i. 0"]
  by blast

text \<open>
  C3. For every secret key and every ciphertext for which the re-encryption check fails
  (the local \<^verbatim>\<open>fail\<close> is not 0), \<^verbatim>\<open>crypto_kem_dec\<close> writes \<open>kdf (z @ hash_h ct)\<close>, where \<open>z\<close>
  is the last \<open>KYBER_SYMBYTES\<close> bytes of the secret key: a function of the secret key and
  the ciphertext alone.
\<close>

theorem implicit_rejection:
  assumes wf: "prims_wf P"
    and sk: "KYBER_SECRETKEYBYTES P \<le> length sk"
    and fail: "fst (dec_locals P ct sk g_buf g_kr g_cmp) \<noteq> 0"
  shows "crypto_kem_dec P ss ct sk g_buf g_kr g_cmp =
           (OQS_SUCCESS,
            kdf P (load sk (KYBER_SECRETKEYBYTES P - KYBER_SYMBYTES) KYBER_SYMBYTES @
                   hash_h P (load ct 0 (KYBER_CIPHERTEXTBYTES P))) @
            drop KYBER_SSBYTES ss)"
proof -
  have z: "length (load sk (KYBER_SECRETKEYBYTES P - 32) 32) = 32"
    using sk by (simp add: load_def sizes)
  from fail obtain kr where loc: "dec_locals P ct sk g_buf g_kr g_cmp = (1, kr)"
    and kr: "drop 32 kr = hash_h P (load ct 0 (KYBER_INDCPA_BYTES P))" "length kr = 64"
    by (auto simp: dec_locals_result [OF wf sk] Let_def wf_hash_g [OF wf] wf_hash_h [OF wf]
        split: if_splits)
  have "load (cmov kr (drop (KYBER_SECRETKEYBYTES P - 32) sk) 32 1) 0 64 =
        load sk (KYBER_SECRETKEYBYTES P - 32) 32 @ drop 32 kr"
    using z kr(2) by (simp add: cmov_def store_def load_def)
  then show ?thesis
    using kr(1) by (simp add: crypto_kem_dec_def loc sizes OQS_SUCCESS_def wf_kdf [OF wf]
        store_exact)
qed

theorem implicit_rejection_witness:
  "prims_wf toy \<and>
   KYBER_SECRETKEYBYTES toy \<le> length toy_sk \<and>
   fst (dec_locals toy bad_ct toy_sk (\<lambda>i. 0) (\<lambda>i. 0) (\<lambda>i. 0)) \<noteq> 0 \<and>
   crypto_kem_dec toy (replicate 32 0) bad_ct toy_sk (\<lambda>i. 0) (\<lambda>i. 0) (\<lambda>i. 0) =
     (OQS_SUCCESS, replicate 32 4)"
proof -
  have "crypto_kem_dec toy (replicate 32 0) bad_ct toy_sk (\<lambda>i. 0) (\<lambda>i. 0) (\<lambda>i. 0) =
     (OQS_SUCCESS, replicate 32 4)"
    using implicit_rejection [OF toy_wf toy_sk_length toy_fail, of "replicate 32 0" "\<lambda>i. 0"
        "\<lambda>i. 0" "\<lambda>i. 0"]
    by (simp add: sizes load_def pad_def toy_sk_def bad_ct_def)
  with toy_wf toy_sk_length toy_fail show ?thesis
    by blast
qed

text \<open>
  C4. For a generated key pair and a 32-byte message \<open>m\<close>,
  \<^verbatim>\<open>crypto_kem_enc_custom_secret_CCA\<close> returns what \<^verbatim>\<open>crypto_kem_enc\<close> returns when the
  random source delivers \<open>m\<close>, which is the pipeline of the specification applied to \<open>m\<close>
  (hash, bind to the hash of the public key, split G, encrypt, derive);
  \<^verbatim>\<open>crypto_kem_dec_custom_secret_CCA\<close> is the same function as \<^verbatim>\<open>crypto_kem_dec\<close>; and
  decapsulating the ciphertext gives the shared secret of that pipeline, the primitive's
  decryption being assumed to recover the encrypted plaintext \<open>hash_h P m\<close>.
\<close>

theorem cca_custom_secret:
  assumes wf: "prims_wf P"
    and m: "length m = 32"
    and kp: "crypto_kem_keypair P pk_mem sk_mem r = (st_k, pk, sk, r1)"
    and enc: "crypto_kem_enc_custom_secret_CCA P m ct_mem ss_mem pk g_buf g_kr = (st_e, ct, ss)"
    and pke: "indcpa_dec P (load ct 0 (KYBER_CIPHERTEXTBYTES P))
                (load sk 0 (KYBER_INDCPA_SECRETKEYBYTES P)) = hash_h P m"
  shows "(\<forall>r'. fst (randombytes r' KYBER_SYMBYTES) = m \<longrightarrow>
            crypto_kem_enc P ct_mem ss_mem pk g_buf g_kr r' =
              (st_e, ct, ss, snd (randombytes r' KYBER_SYMBYTES))) \<and>
         (load ct 0 (KYBER_CIPHERTEXTBYTES P), load ss 0 KYBER_SSBYTES) =
            spec_encapsulate P m (load pk 0 (KYBER_PUBLICKEYBYTES P)) \<and>
         (\<forall>ss1 ct1 sk1 g1 g2 g3.
            crypto_kem_dec_custom_secret_CCA P ss1 ct1 sk1 g1 g2 g3 =
            crypto_kem_dec P ss1 ct1 sk1 g1 g2 g3) \<and>
         (\<exists>ss_d. crypto_kem_dec_custom_secret_CCA P ss_mem' ct sk g_buf' g_kr' g_cmp' =
                   (OQS_SUCCESS, ss_d) \<and>
                 load ss_d 0 KYBER_SSBYTES =
                   snd (spec_encapsulate P m (load pk 0 (KYBER_PUBLICKEYBYTES P))))"
proof (intro conjI allI impI)
  let ?e = "spec_encapsulate P m (load pk 0 (KYBER_INDCPA_PUBLICKEYBYTES P))"
  from enc have st: "st_e = 0" and ct: "ct = fst ?e @ drop (KYBER_INDCPA_BYTES P) ct_mem"
    and ss: "ss = snd ?e @ drop 32 ss_mem"
    by (simp_all add: enc_cca_result [OF wf m] split_beta)
  have ct_load: "load ct 0 (KYBER_INDCPA_BYTES P) = fst ?e"
    by (simp add: ct load_def spec_encapsulate_lengths [OF wf])
  have ss_load: "load ss 0 32 = snd ?e"
    by (simp add: ss load_def spec_encapsulate_lengths [OF wf])
  show "(load ct 0 (KYBER_CIPHERTEXTBYTES P), load ss 0 KYBER_SSBYTES) =
            spec_encapsulate P m (load pk 0 (KYBER_PUBLICKEYBYTES P))"
    by (simp add: sizes ct_load ss_load)
  show "crypto_kem_dec_custom_secret_CCA P ss1 ct1 sk1 g1 g2 g3 =
        crypto_kem_dec P ss1 ct1 sk1 g1 g2 g3" for ss1 ct1 sk1 g1 g2 g3
    by (rule dec_cca_eq)
  from pke have pke': "indcpa_dec P (load ct 0 (KYBER_INDCPA_BYTES P))
      (load sk 0 (KYBER_INDCPA_SECRETKEYBYTES P)) = hash_h P m"
    by (simp add: sizes)
  show "\<exists>ss_d. crypto_kem_dec_custom_secret_CCA P ss_mem' ct sk g_buf' g_kr' g_cmp' =
                   (OQS_SUCCESS, ss_d) \<and>
                 load ss_d 0 KYBER_SSBYTES =
                   snd (spec_encapsulate P m (load pk 0 (KYBER_PUBLICKEYBYTES P)))"
    by (simp add: dec_cca_eq dec_after_encapsulate [OF wf kp ct_load pke'] OQS_SUCCESS_def
        load_def sizes spec_encapsulate_lengths [OF wf])
  fix r'
  assume "fst (randombytes r' KYBER_SYMBYTES) = m"
  then have "map r' [0..<32] = m"
    by (simp add: randombytes_def sizes)
  then show "crypto_kem_enc P ct_mem ss_mem pk g_buf g_kr r' =
      (st_e, ct, ss, snd (randombytes r' KYBER_SYMBYTES))"
    by (simp add: enc_result [OF wf] st ct ss split_beta randombytes_def sizes)
qed

theorem cca_custom_secret_witness:
  "prims_wf toy \<and> length (replicate 32 (5 :: byte)) = 32 \<and>
   crypto_kem_keypair toy [0, 0] (replicate 68 0) (\<lambda>i. 1) = (0, toy_pk, toy_sk, \<lambda>i. 1) \<and>
   crypto_kem_enc_custom_secret_CCA toy (replicate 32 5) (replicate 64 0) (replicate 32 0)
     toy_pk (\<lambda>i. 0) (\<lambda>i. 0) = (0, toy_ct, replicate 32 11) \<and>
   indcpa_dec toy (load toy_ct 0 (KYBER_CIPHERTEXTBYTES toy))
     (load toy_sk 0 (KYBER_INDCPA_SECRETKEYBYTES toy)) = hash_h toy (replicate 32 5) \<and>
   fst (randombytes (\<lambda>i. 5) KYBER_SYMBYTES) = replicate 32 5 \<and>
   crypto_kem_enc toy (replicate 64 0) (replicate 32 0) toy_pk (\<lambda>i. 0) (\<lambda>i. 0) (\<lambda>i. 5) =
     (0, toy_ct, replicate 32 11, snd (randombytes (\<lambda>i. 5) KYBER_SYMBYTES)) \<and>
   (\<exists>ss_d. crypto_kem_dec_custom_secret_CCA toy (replicate 32 0) toy_ct toy_sk
             (\<lambda>i. 0) (\<lambda>i. 0) (\<lambda>i. 0) = (OQS_SUCCESS, ss_d) \<and>
           load ss_d 0 KYBER_SSBYTES = replicate 32 11)"
proof -
  have len: "length (replicate 32 (5 :: byte)) = 32"
    by simp
  have rnd: "fst (randombytes (\<lambda>i. 5) KYBER_SYMBYTES) = replicate 32 5"
    by (simp add: randombytes_def sizes const_bytes)
  note c = cca_custom_secret [OF toy_wf len toy_keypair toy_enc_cca [of "\<lambda>i. 0" "\<lambda>i. 0"]
      toy_pke_cca,
      where ss_mem' = "replicate 32 0" and g_buf' = "\<lambda>i. 0" and g_kr' = "\<lambda>i. 0"
        and g_cmp' = "\<lambda>i. 0"]
  from c rnd have "crypto_kem_enc toy (replicate 64 0) (replicate 32 0) toy_pk (\<lambda>i. 0) (\<lambda>i. 0)
      (\<lambda>i. 5) = (0, toy_ct, replicate 32 11, snd (randombytes (\<lambda>i. 5) KYBER_SYMBYTES))"
    by blast
  moreover from c have "\<exists>ss_d. crypto_kem_dec_custom_secret_CCA toy (replicate 32 0) toy_ct
      toy_sk (\<lambda>i. 0) (\<lambda>i. 0) (\<lambda>i. 0) = (OQS_SUCCESS, ss_d) \<and>
      load ss_d 0 KYBER_SSBYTES =
        snd (spec_encapsulate toy (replicate 32 5) (load toy_pk 0 (KYBER_PUBLICKEYBYTES toy)))"
    by blast
  then have "\<exists>ss_d. crypto_kem_dec_custom_secret_CCA toy (replicate 32 0) toy_ct
      toy_sk (\<lambda>i. 0) (\<lambda>i. 0) (\<lambda>i. 0) = (OQS_SUCCESS, ss_d) \<and>
      load ss_d 0 KYBER_SSBYTES = replicate 32 11"
    by (simp only: toy_spec_encapsulate snd_conv)
  ultimately show ?thesis
    using toy_wf len toy_keypair toy_enc_cca toy_pke_cca rnd by blast
qed

text \<open>
  C5. For every ciphertext and secret key, \<^verbatim>\<open>crypto_kem_dec\<close> returns \<^verbatim>\<open>OQS_SUCCESS\<close> and
  writes \<open>KYBER_SSBYTES\<close> bytes at \<^verbatim>\<open>ss\<close>, leaving what follows them as it was; so does
  \<^verbatim>\<open>OQS_KEM_kyber_768_decaps\<close> where the AVX2 implementation is the one selected.
\<close>

theorem decaps_never_fails:
  assumes wf: "prims_wf P"
  shows "\<exists>k. length k = KYBER_SSBYTES \<and>
           crypto_kem_dec P ss ct sk g_buf g_kr g_cmp = (OQS_SUCCESS, k @ drop KYBER_SSBYTES ss) \<and>
           (avx2_selected B cpu \<longrightarrow>
              OQS_KEM_kyber_768_decaps B cpu X P ss ct sk g_buf g_kr g_cmp =
                (OQS_SUCCESS, k @ drop KYBER_SSBYTES ss))"
proof -
  obtain fail kr where loc: "dec_locals P ct sk g_buf g_kr g_cmp = (fail, kr)"
    by (cases "dec_locals P ct sk g_buf g_kr g_cmp") auto
  let ?k = "kdf P (load (cmov kr (drop (KYBER_SECRETKEYBYTES P - KYBER_SYMBYTES) sk)
                KYBER_SYMBYTES fail) 0 (2 * KYBER_SYMBYTES))"
  have len: "length ?k = KYBER_SSBYTES"
    by (simp add: wf_kdf [OF wf] sizes)
  have dec: "crypto_kem_dec P ss ct sk g_buf g_kr g_cmp =
      (OQS_SUCCESS, ?k @ drop KYBER_SSBYTES ss)"
    using len by (simp add: crypto_kem_dec_def loc OQS_SUCCESS_def store_exact)
  have "avx2_selected B cpu \<Longrightarrow>
      OQS_KEM_kyber_768_decaps B cpu X P ss ct sk g_buf g_kr g_cmp =
      crypto_kem_dec P ss ct sk g_buf g_kr g_cmp"
    by (auto simp: avx2_selected_def OQS_KEM_kyber_768_decaps_def)
  with len dec show ?thesis
    by (intro exI [of _ ?k]) simp
qed

theorem decaps_never_fails_witness:
  "prims_wf toy \<and> avx2_selected avx2_build (\<lambda>e. False) \<and>
   (\<exists>k. length k = KYBER_SSBYTES \<and>
      OQS_KEM_kyber_768_decaps avx2_build (\<lambda>e. False) toy_externs toy (replicate 40 7)
        bad_ct toy_sk (\<lambda>i. 0) (\<lambda>i. 0) (\<lambda>i. 0) =
        (OQS_SUCCESS, k @ drop KYBER_SSBYTES (replicate 40 7)))"
  using toy_wf avx2_selected_avx2_build [of "\<lambda>e. False"]
    decaps_never_fails [OF toy_wf, of "replicate 40 7" bad_ct toy_sk "\<lambda>i. 0" "\<lambda>i. 0" "\<lambda>i. 0"
      avx2_build "\<lambda>e. False" toy_externs]
  by blast

text \<open>
  C6. The claim is that the shared-secret output of the two CPA custom-secret operations
  receives exactly \<open>KYBER_SSBYTES = 32\<close> bytes and nothing beyond them is modified. The
  code copies \<open>2 * KYBER_SYMBYTES = 64\<close> bytes of \<^verbatim>\<open>buf\<close> to \<^verbatim>\<open>ss\<close>: the 32 bytes that follow
  the shared secret in the caller's memory are overwritten with the upper half of the
  local \<^verbatim>\<open>buf\<close>, which neither function initialises.
\<close>

theorem cpa_custom_secret_overruns_ss:
  assumes wf: "prims_wf P" and m: "length m = 32"
  shows "load (snd (snd (crypto_kem_enc_custom_secret_CPA P m ct ss pk g_buf g_kr)))
           KYBER_SSBYTES 32 = map g_buf [32..<64] \<and>
         load (snd (crypto_kem_dec_custom_secret_CPA P ss ct' sk g_buf))
           KYBER_SSBYTES 32 = map g_buf [32..<64]"
  by (simp add: enc_cpa_result [OF m] dec_cpa_result [OF wf] load_def sizes wf_dec [OF wf] m)

theorem cpa_custom_secret_overruns_ss_witness:
  "prims_wf toy \<and> length msg_0_31 = 32 \<and>
   load (replicate 32 0 @ replicate 32 7) KYBER_SSBYTES 32 = replicate 32 7 \<and>
   load (snd (snd (crypto_kem_enc_custom_secret_CPA toy msg_0_31 (replicate 64 0)
           (replicate 32 0 @ replicate 32 7) toy_pk (\<lambda>i. 255) (\<lambda>i. 0))))
     KYBER_SSBYTES 32 = replicate 32 255 \<and>
   load (snd (crypto_kem_dec_custom_secret_CPA toy (replicate 32 0 @ replicate 32 7) toy_ct
           toy_sk (\<lambda>i. 255)))
     KYBER_SSBYTES 32 = replicate 32 255"
proof -
  have "load (replicate 32 0 @ replicate 32 (7 :: byte)) KYBER_SSBYTES 32 = replicate 32 7"
    by (simp add: load_def sizes)
  moreover have "map (\<lambda>i. 255 :: byte) [32..<64] = replicate 32 255"
    unfolding const_bytes by simp
  ultimately show ?thesis
    using toy_wf length_msg_0_31
      cpa_custom_secret_overruns_ss [OF toy_wf length_msg_0_31, where ct = "replicate 64 0"
        and ss = "replicate 32 0 @ replicate 32 7" and pk = toy_pk and g_buf = "\<lambda>i. 255"
        and g_kr = "\<lambda>i. 0" and ct' = toy_ct and sk = toy_sk]
    by (simp only: simp_thms)
qed

text \<open>
  C7. For every 32-byte seed, \<^verbatim>\<open>crypto_kem_keypair_based_on_input\<close> succeeds, the last
  \<open>KYBER_SYMBYTES\<close> bytes of the secret key it writes are the seed itself, and the keys do
  not depend on what the output buffers and the local array held before (the primitive's
  key generation being a function of the bytes at \<^verbatim>\<open>key_input\<close>).
  \<^verbatim>\<open>OQS_KEM_kyber_768_keypair_based_on_input\<close> returns the same where the AVX2
  implementation is the one selected.
\<close>

theorem keypair_based_on_input_deterministic:
  assumes wf: "prims_wf P" and seed: "length seed = 32"
  shows "\<exists>pk' sk'.
           crypto_kem_keypair_based_on_input P seed pk sk g = (OQS_SUCCESS, pk', sk') \<and>
           load sk' (KYBER_SECRETKEYBYTES P - KYBER_SYMBYTES) KYBER_SYMBYTES = seed \<and>
           (\<forall>pk2 sk2 g2. \<exists>pk2' sk2'.
              crypto_kem_keypair_based_on_input P seed pk2 sk2 g2 = (OQS_SUCCESS, pk2', sk2') \<and>
              load pk2' 0 (KYBER_PUBLICKEYBYTES P) = load pk' 0 (KYBER_PUBLICKEYBYTES P) \<and>
              load sk2' 0 (KYBER_SECRETKEYBYTES P) = load sk' 0 (KYBER_SECRETKEYBYTES P)) \<and>
           (avx2_selected B cpu \<longrightarrow>
              OQS_KEM_kyber_768_keypair_based_on_input B cpu X P seed pk sk g r =
                Some (OQS_SUCCESS, pk', sk', r))"
proof -
  obtain pk0 sk0 where kp: "indcpa_keypair_based_on_input P seed = (pk0, sk0)"
    by (cases "indcpa_keypair_based_on_input P seed") auto
  note len = wf_keypair_input [OF wf kp] wf_hash_h [OF wf, of pk0]
  note res = keypair_input_result [OF wf kp seed]
  have "avx2_selected B cpu \<Longrightarrow>
      OQS_KEM_kyber_768_keypair_based_on_input B cpu X P seed pk sk g r =
      (let (st, pk', sk') = crypto_kem_keypair_based_on_input P seed pk sk g
       in Some (st, pk', sk', r))"
    by (auto simp: avx2_selected_def OQS_KEM_kyber_768_keypair_based_on_input_def)
  then show ?thesis
    using len seed by (simp add: res OQS_SUCCESS_def load_def sizes)
qed

theorem keypair_based_on_input_deterministic_witness:
  "prims_wf toy \<and> length msg_0_31 = 32 \<and> avx2_selected avx2_build (\<lambda>e. False) \<and>
   (\<exists>pk' sk'.
      OQS_KEM_kyber_768_keypair_based_on_input avx2_build (\<lambda>e. False) toy_externs toy
        msg_0_31 [0, 0] (replicate 68 0) (\<lambda>i. 9) (\<lambda>i. 1) = Some (OQS_SUCCESS, pk', sk', \<lambda>i. 1) \<and>
      load sk' (KYBER_SECRETKEYBYTES toy - KYBER_SYMBYTES) KYBER_SYMBYTES = msg_0_31)"
  using toy_wf length_msg_0_31 avx2_selected_avx2_build [of "\<lambda>e. False"]
    keypair_based_on_input_deterministic [OF toy_wf length_msg_0_31, where pk = "[0, 0]"
      and sk = "replicate 68 0" and g = "\<lambda>i. 9" and B = avx2_build and cpu = "\<lambda>e. False"
      and X = toy_externs and r = "\<lambda>i. 1"]
  by blast

text \<open>
  C8. Where the AVX2 implementation is not the one selected (a distribution build on a
  processor without the extensions, a build for aarch64, a reference build), each
  custom-secret entry point of the dispatch layer returns what the standard entry point
  returns: the result of the reference or aarch64 standard function, which is not given
  \<^verbatim>\<open>input_message\<close>. The CPA encapsulation entry point therefore differs, at some message,
  between a configuration that selects AVX2 and one that does not.
\<close>

theorem custom_secret_fallback:
  assumes fb: "\<not> avx2_selected B cpu"
  shows "OQS_KEM_kyber_768_encaps_custom_secret_CPA B cpu X P m ct ss pk g_buf g_kr r =
           OQS_KEM_kyber_768_encaps B cpu X P ct ss pk g_buf g_kr r \<and>
         OQS_KEM_kyber_768_encaps_custom_secret_CCA B cpu X P m ct ss pk g_buf g_kr r =
           OQS_KEM_kyber_768_encaps B cpu X P ct ss pk g_buf g_kr r \<and>
         OQS_KEM_kyber_768_decaps_custom_secret_CPA B cpu X P ss ct' sk g_buf =
           OQS_KEM_kyber_768_decaps B cpu X P ss ct' sk g_buf g_kr g_cmp \<and>
         OQS_KEM_kyber_768_decaps_custom_secret_CCA B cpu X P ss ct' sk g_buf g_kr g_cmp =
           OQS_KEM_kyber_768_decaps B cpu X P ss ct' sk g_buf g_kr g_cmp \<and>
         (OQS_KEM_kyber_768_encaps B cpu X P ct ss pk g_buf g_kr r =
            pqcrystals_kyber768_ref_enc X ct ss pk r \<or>
          OQS_KEM_kyber_768_encaps B cpu X P ct ss pk g_buf g_kr r =
            PQCLEAN_KYBER768_AARCH64_crypto_kem_enc X ct ss pk r) \<and>
         (OQS_KEM_kyber_768_decaps B cpu X P ss ct' sk g_buf g_kr g_cmp =
            pqcrystals_kyber768_ref_dec X ss ct' sk \<or>
          OQS_KEM_kyber_768_decaps B cpu X P ss ct' sk g_buf g_kr g_cmp =
            PQCLEAN_KYBER768_AARCH64_crypto_kem_dec X ss ct' sk) \<and>
         (\<forall>B' cpu'. avx2_selected B' cpu' \<longrightarrow>
            (\<exists>m0. length m0 = 32 \<and>
               OQS_KEM_kyber_768_encaps_custom_secret_CPA B' cpu' X P m0 ct ss pk g_buf g_kr r \<noteq>
               OQS_KEM_kyber_768_encaps_custom_secret_CPA B cpu X P m0 ct ss pk g_buf g_kr r))"
proof (intro conjI allI impI)
  show "OQS_KEM_kyber_768_encaps_custom_secret_CPA B cpu X P m ct ss pk g_buf g_kr r =
           OQS_KEM_kyber_768_encaps B cpu X P ct ss pk g_buf g_kr r"
    using fb by (rule fallback_encaps_CPA)
  show "OQS_KEM_kyber_768_encaps_custom_secret_CCA B cpu X P m ct ss pk g_buf g_kr r =
           OQS_KEM_kyber_768_encaps B cpu X P ct ss pk g_buf g_kr r"
    using fb by (auto simp: avx2_selected_def OQS_KEM_kyber_768_encaps_custom_secret_CCA_def
        OQS_KEM_kyber_768_encaps_def)
  show "OQS_KEM_kyber_768_decaps_custom_secret_CPA B cpu X P ss ct' sk g_buf =
           OQS_KEM_kyber_768_decaps B cpu X P ss ct' sk g_buf g_kr g_cmp"
    using fb by (auto simp: avx2_selected_def OQS_KEM_kyber_768_decaps_custom_secret_CPA_def
        OQS_KEM_kyber_768_decaps_def)
  show "OQS_KEM_kyber_768_decaps_custom_secret_CCA B cpu X P ss ct' sk g_buf g_kr g_cmp =
           OQS_KEM_kyber_768_decaps B cpu X P ss ct' sk g_buf g_kr g_cmp"
    using fb by (auto simp: avx2_selected_def OQS_KEM_kyber_768_decaps_custom_secret_CCA_def
        OQS_KEM_kyber_768_decaps_def)
  show "OQS_KEM_kyber_768_encaps B cpu X P ct ss pk g_buf g_kr r =
            pqcrystals_kyber768_ref_enc X ct ss pk r \<or>
          OQS_KEM_kyber_768_encaps B cpu X P ct ss pk g_buf g_kr r =
            PQCLEAN_KYBER768_AARCH64_crypto_kem_enc X ct ss pk r"
    using fb by (auto simp: avx2_selected_def OQS_KEM_kyber_768_encaps_def)
  show "OQS_KEM_kyber_768_decaps B cpu X P ss ct' sk g_buf g_kr g_cmp =
            pqcrystals_kyber768_ref_dec X ss ct' sk \<or>
          OQS_KEM_kyber_768_decaps B cpu X P ss ct' sk g_buf g_kr g_cmp =
            PQCLEAN_KYBER768_AARCH64_crypto_kem_dec X ss ct' sk"
    using fb by (auto simp: avx2_selected_def OQS_KEM_kyber_768_decaps_def)
  fix B' cpu'
  assume sel: "avx2_selected B' cpu'"
  let ?acc = "\<lambda>m0. OQS_KEM_kyber_768_encaps_custom_secret_CPA B' cpu' X P m0 ct ss pk g_buf g_kr r"
  let ?fb = "\<lambda>m0. OQS_KEM_kyber_768_encaps_custom_secret_CPA B cpu X P m0 ct ss pk g_buf g_kr r"
  have acc: "fst (snd (snd (?acc m0))) = m0 @ map g_buf [32..<64] @ drop 64 ss"
    if "length m0 = 32" for m0
    by (simp add: avx2_selected_encaps_CPA [OF sel] enc_cpa_result [OF that])
  have same: "?fb m0 = ?fb m1" for m0 m1
    by (simp add: fallback_encaps_CPA [OF fb])
  have "?acc (replicate 32 0) \<noteq> ?fb (replicate 32 0) \<or> ?acc (replicate 32 1) \<noteq> ?fb (replicate 32 1)"
  proof (rule ccontr)
    assume "\<not> ?thesis"
    then have "?acc (replicate 32 0) = ?acc (replicate 32 1)"
      using same [of "replicate 32 0" "replicate 32 1"] by simp
    then have "fst (snd (snd (?acc (replicate 32 0)))) = fst (snd (snd (?acc (replicate 32 1))))"
      by simp
    then have "replicate 32 (0 :: byte) = replicate 32 1"
      by (simp add: acc)
    then have "hd (replicate 32 (0 :: byte)) = hd (replicate 32 1)"
      by simp
    then show False
      by simp
  qed
  then show "\<exists>m0. length m0 = 32 \<and> ?acc m0 \<noteq> ?fb m0"
    by (metis length_replicate)
qed

theorem custom_secret_fallback_witness:
  "\<not> avx2_selected dist_build (\<lambda>e. False) \<and>
   avx2_selected avx2_build (\<lambda>e. False) \<and>
   OQS_KEM_kyber_768_encaps_custom_secret_CPA dist_build (\<lambda>e. False) toy_externs toy msg_0_31
       (replicate 64 0) (replicate 32 0) toy_pk (\<lambda>i. 0) (\<lambda>i. 0) (\<lambda>i. 5) =
     OQS_KEM_kyber_768_encaps dist_build (\<lambda>e. False) toy_externs toy
       (replicate 64 0) (replicate 32 0) toy_pk (\<lambda>i. 0) (\<lambda>i. 0) (\<lambda>i. 5) \<and>
   OQS_KEM_kyber_768_decaps_custom_secret_CPA dist_build (\<lambda>e. False) toy_externs toy
       (replicate 32 0) toy_ct toy_sk (\<lambda>i. 0) =
     OQS_KEM_kyber_768_decaps dist_build (\<lambda>e. False) toy_externs toy
       (replicate 32 0) toy_ct toy_sk (\<lambda>i. 0) (\<lambda>i. 0) (\<lambda>i. 0) \<and>
   (\<exists>m0. length m0 = 32 \<and>
      OQS_KEM_kyber_768_encaps_custom_secret_CPA avx2_build (\<lambda>e. False) toy_externs toy m0
        (replicate 64 0) (replicate 32 0) toy_pk (\<lambda>i. 0) (\<lambda>i. 0) (\<lambda>i. 5) \<noteq>
      OQS_KEM_kyber_768_encaps_custom_secret_CPA dist_build (\<lambda>e. False) toy_externs toy m0
        (replicate 64 0) (replicate 32 0) toy_pk (\<lambda>i. 0) (\<lambda>i. 0) (\<lambda>i. 5))"
  using not_selected_dist avx2_selected_avx2_build [of "\<lambda>e. False"]
    custom_secret_fallback [OF not_selected_dist, where X = toy_externs and P = toy
      and m = msg_0_31 and ct = "replicate 64 0" and ss = "replicate 32 0" and pk = toy_pk
      and g_buf = "\<lambda>i. 0" and g_kr = "\<lambda>i. 0" and g_cmp = "\<lambda>i. 0" and r = "\<lambda>i. 5"
      and ct' = toy_ct and sk = toy_sk]
  by blast

text \<open>
  C9. \<^verbatim>\<open>crypto_kem_enc_custom_secret_CPA\<close> encrypts under the coins found in the upper
  half of the local \<^verbatim>\<open>kr\<close>, which it never writes: the ciphertext is a function of these
  indeterminate bytes, and whenever the primitive's ciphertext depends on the coins two
  runs on the same message and public key can give different ciphertexts.
\<close>

theorem enc_cpa_coins_uninitialised:
  assumes m: "length m = 32"
  shows "fst (snd (crypto_kem_enc_custom_secret_CPA P m ct ss pk g_buf g_kr)) =
           store ct 0
             (indcpa_enc P m (load pk 0 (KYBER_INDCPA_PUBLICKEYBYTES P)) (map g_kr [32..<64]))
             (KYBER_INDCPA_BYTES P) \<and>
         (\<forall>c c'. length c = 32 \<and> length c' = 32 \<and>
            store ct 0 (indcpa_enc P m (load pk 0 (KYBER_INDCPA_PUBLICKEYBYTES P)) c)
              (KYBER_INDCPA_BYTES P) \<noteq>
            store ct 0 (indcpa_enc P m (load pk 0 (KYBER_INDCPA_PUBLICKEYBYTES P)) c')
              (KYBER_INDCPA_BYTES P) \<longrightarrow>
            (\<exists>g g'. fst (snd (crypto_kem_enc_custom_secret_CPA P m ct ss pk g_buf g)) \<noteq>
                     fst (snd (crypto_kem_enc_custom_secret_CPA P m ct ss pk g_buf g'))))"
proof (intro conjI allI impI)
  show "fst (snd (crypto_kem_enc_custom_secret_CPA P m ct ss pk g_buf g_kr)) =
           store ct 0
             (indcpa_enc P m (load pk 0 (KYBER_INDCPA_PUBLICKEYBYTES P)) (map g_kr [32..<64]))
             (KYBER_INDCPA_BYTES P)"
    by (simp add: enc_cpa_result [OF m])
  fix c c' :: bytes
  let ?E = "\<lambda>x. store ct 0 (indcpa_enc P m (load pk 0 (KYBER_INDCPA_PUBLICKEYBYTES P)) x)
              (KYBER_INDCPA_BYTES P)"
  assume a: "length c = 32 \<and> length c' = 32 \<and> ?E c \<noteq> ?E c'"
  have coins: "map (\<lambda>i. x ! (i - 32)) [32..<64] = x" if "length x = 32" for x :: bytes
    using map_nth_shift [of x 32] that by simp
  have "fst (snd (crypto_kem_enc_custom_secret_CPA P m ct ss pk g_buf (\<lambda>i. c ! (i - 32)))) \<noteq>
        fst (snd (crypto_kem_enc_custom_secret_CPA P m ct ss pk g_buf (\<lambda>i. c' ! (i - 32))))"
    using a by (simp only: enc_cpa_result [OF m] coins fst_conv snd_conv) simp
  then show "\<exists>g g'. fst (snd (crypto_kem_enc_custom_secret_CPA P m ct ss pk g_buf g)) \<noteq>
                     fst (snd (crypto_kem_enc_custom_secret_CPA P m ct ss pk g_buf g'))"
    by blast
qed

theorem enc_cpa_coins_uninitialised_witness:
  "length msg_0_31 = 32 \<and>
   length (replicate 32 (0 :: byte)) = 32 \<and> length (replicate 32 (1 :: byte)) = 32 \<and>
   store (replicate 64 0) 0
     (indcpa_enc toy msg_0_31 (load toy_pk 0 (KYBER_INDCPA_PUBLICKEYBYTES toy)) (replicate 32 0))
     (KYBER_INDCPA_BYTES toy) \<noteq>
   store (replicate 64 0) 0
     (indcpa_enc toy msg_0_31 (load toy_pk 0 (KYBER_INDCPA_PUBLICKEYBYTES toy)) (replicate 32 1))
     (KYBER_INDCPA_BYTES toy) \<and>
   (\<exists>g g'. fst (snd (crypto_kem_enc_custom_secret_CPA toy msg_0_31 (replicate 64 0)
                (replicate 32 0) toy_pk (\<lambda>i. 0) g)) \<noteq>
           fst (snd (crypto_kem_enc_custom_secret_CPA toy msg_0_31 (replicate 64 0)
                (replicate 32 0) toy_pk (\<lambda>i. 0) g')))"
proof -
  have l: "length (replicate 32 (0 :: byte)) = 32" "length (replicate 32 (1 :: byte)) = 32"
    by simp_all
  from enc_cpa_coins_uninitialised [OF length_msg_0_31, of toy "replicate 64 0"
      "replicate 32 0" toy_pk "\<lambda>i. 0" "\<lambda>i. 0"] l toy_coins_matter
  have "\<exists>g g'. fst (snd (crypto_kem_enc_custom_secret_CPA toy msg_0_31 (replicate 64 0)
                (replicate 32 0) toy_pk (\<lambda>i. 0) g)) \<noteq>
           fst (snd (crypto_kem_enc_custom_secret_CPA toy msg_0_31 (replicate 64 0)
                (replicate 32 0) toy_pk (\<lambda>i. 0) g'))"
    by blast
  with length_msg_0_31 l toy_coins_matter show ?thesis
    by blast
qed

text \<open>
  C10. Where \<^verbatim>\<open>OQS_ENABLE_KEM_kyber_768_avx2\<close> is not defined,
  \<^verbatim>\<open>OQS_KEM_kyber_768_keypair_based_on_input\<close> reaches its end without returning a status;
  in a distribution build on a processor without the AVX2 extensions it returns what the
  reference key generation returns, which is not given \<^verbatim>\<open>key_input\<close>.
\<close>

theorem keypair_based_on_input_no_return:
  "(\<not> OQS_ENABLE_KEM_kyber_768_avx2 B \<longrightarrow>
      OQS_KEM_kyber_768_keypair_based_on_input B cpu X P key_input pk sk g r = None) \<and>
   (OQS_ENABLE_KEM_kyber_768_avx2 B \<and> OQS_DIST_BUILD B \<and> \<not> avx2_cpu cpu \<longrightarrow>
      OQS_KEM_kyber_768_keypair_based_on_input B cpu X P key_input pk sk g r =
        Some (pqcrystals_kyber768_ref_keypair X pk sk r))"
  by (simp add: OQS_KEM_kyber_768_keypair_based_on_input_def)

theorem keypair_based_on_input_no_return_witness:
  "\<not> OQS_ENABLE_KEM_kyber_768_avx2 aarch64_build \<and>
   OQS_KEM_kyber_768_keypair_based_on_input aarch64_build (\<lambda>e. True) toy_externs toy msg_0_31
     [0, 0] (replicate 68 0) (\<lambda>i. 0) (\<lambda>i. 1) = None \<and>
   OQS_ENABLE_KEM_kyber_768_avx2 dist_build \<and> OQS_DIST_BUILD dist_build \<and>
   \<not> avx2_cpu (\<lambda>e. False) \<and>
   OQS_KEM_kyber_768_keypair_based_on_input dist_build (\<lambda>e. False) toy_externs toy msg_0_31
     [0, 0] (replicate 68 0) (\<lambda>i. 0) (\<lambda>i. 1) =
     Some (pqcrystals_kyber768_ref_keypair toy_externs [0, 0] (replicate 68 0) (\<lambda>i. 1))"
proof -
  have a: "\<not> OQS_ENABLE_KEM_kyber_768_avx2 aarch64_build"
    by (simp add: aarch64_build_def)
  have d: "OQS_ENABLE_KEM_kyber_768_avx2 dist_build" "OQS_DIST_BUILD dist_build"
    "\<not> avx2_cpu (\<lambda>e. False)"
    by (simp_all add: dist_build_def avx2_cpu_def)
  from a d
    keypair_based_on_input_no_return [of aarch64_build "\<lambda>e. True" toy_externs toy msg_0_31
      "[0, 0]" "replicate 68 0" "\<lambda>i. 0" "\<lambda>i. 1"]
    keypair_based_on_input_no_return [of dist_build "\<lambda>e. False" toy_externs toy msg_0_31
      "[0, 0]" "replicate 68 0" "\<lambda>i. 0" "\<lambda>i. 1"]
  show ?thesis
    by blast
qed

end
